theory Spec2Isabelle
  imports Complex_Main "HOL-Library.Word"
begin

unbundle bit_operations_syntax

section \<open>The AudioUnit effect host of Audacity (AudioUnitWrapper.cpp, AudioUnitEffect.cpp)\<close>

text \<open>
  The host drives a native plug-in (an AudioUnit) through Apple's C interface. The
  plug-in is not part of the program: every call into it is modelled by the reply it
  gives, passed to the host function as an argument, or by an explicit plug-in state
  where a later reply depends on an earlier call.
\<close>

subsection \<open>Status codes\<close>

text \<open>\<open>OSStatus\<close> is a signed 32-bit integer; \<open>noErr\<close> is 0.\<close>

type_synonym OSStatus = "32 word"

definition noErr :: OSStatus where
  "noErr = 0"

subsection \<open>Channel negotiation: \<open>AudioUnitEffect::GetChannelCounts\<close>\<close>

text \<open>\<open>AUChannelInfo\<close> holds two signed 16-bit channel counts; a negative one is a wildcard.\<close>

record AUChannelInfo =
  inChannels :: "16 word"
  outChannels :: "16 word"

text \<open>
  What the plug-in answers when asked for \<open>kAudioUnitProperty_SupportedNumChannels\<close>:
  the status of \<open>AudioUnitGetPropertyInfo\<close>, the status of \<open>AudioUnitGetProperty\<close>,
  and the table the latter fills in (\<open>dataSize / sizeof(AUChannelInfo)\<close> entries).
\<close>

record SupportedNumChannels =
  infoStatus :: OSStatus
  getStatus :: OSStatus
  channelInfo :: "AUChannelInfo list"

text \<open>The eight local flags of \<open>GetChannelCounts\<close>.\<close>

record ChannelFlags =
  haven2m :: bool
  haven2s :: bool
  havem2n :: bool
  haves2n :: bool
  havem2m :: bool
  haves2s :: bool
  havem2s :: bool
  haves2m :: bool

definition noFlags :: ChannelFlags where
  "noFlags = \<lparr>haven2m = False, haven2s = False, havem2n = False, haves2n = False,
              havem2m = False, haves2s = False, havem2s = False, haves2m = False\<rparr>"

text \<open>The first three branches of the loop body: a negative count becomes 2.\<close>

definition resolveWildcards :: "int \<Rightarrow> int \<Rightarrow> int \<times> int" where
  "resolveWildcards ic oc =
     (if ic < 0 \<and> oc \<ge> 0 then (2, oc)
      else if ic \<ge> 0 \<and> oc < 0 then (ic, 2)
      else if ic < 0 \<and> oc < 0 then (2, 2)
      else (ic, oc))"

text \<open>The second chain of the loop body: which flag the resolved pair raises.\<close>

definition recordPair :: "ChannelFlags \<Rightarrow> int \<times> int \<Rightarrow> ChannelFlags" where
  "recordPair f p =
     (case p of (ic, oc) \<Rightarrow>
        if ic = 2 \<and> oc = 2 then f\<lparr>haves2s := True\<rparr>
        else if ic = 1 \<and> oc = 1 then f\<lparr>havem2m := True\<rparr>
        else if ic = 1 \<and> oc = 2 then f\<lparr>havem2s := True\<rparr>
        else if ic = 2 \<and> oc = 1 then f\<lparr>haves2m := True\<rparr>
        else if ic = 0 \<and> oc = 2 then f\<lparr>haven2s := True\<rparr>
        else if ic = 0 \<and> oc = 1 then f\<lparr>haven2m := True\<rparr>
        else if ic = 1 \<and> oc = 0 then f\<lparr>havem2n := True\<rparr>
        else if ic = 2 \<and> oc = 0 then f\<lparr>haves2n := True\<rparr>
        else f)"

definition scanInfo :: "ChannelFlags \<Rightarrow> AUChannelInfo \<Rightarrow> ChannelFlags" where
  "scanInfo f ci =
     recordPair f (resolveWildcards (sint (inChannels ci)) (sint (outChannels ci)))"

text \<open>
  The final chain; \<open>mAudioIns\<close> and \<open>mAudioOuts\<close> were set to 2 before the loop and
  stay so when no flag is raised.
\<close>

definition chooseCounts :: "ChannelFlags \<Rightarrow> nat \<times> nat" where
  "chooseCounts f =
     (if haves2s f then (2, 2)
      else if havem2m f then (1, 1)
      else if havem2s f then (1, 2)
      else if haves2m f then (2, 1)
      else if haven2m f then (0, 1)
      else if haven2s f then (0, 2)
      else if haves2n f then (2, 0)
      else if havem2n f then (1, 0)
      else (2, 2))"

text \<open>The pair \<open>(mAudioIns, mAudioOuts)\<close> that \<open>GetChannelCounts\<close> leaves in the effect.\<close>

definition GetChannelCounts :: "SupportedNumChannels \<Rightarrow> nat \<times> nat" where
  "GetChannelCounts r =
     (if infoStatus r \<noteq> noErr then (2, 2)
      else if getStatus r \<noteq> noErr then (2, 2)
      else chooseCounts (foldl scanInfo noFlags (channelInfo r)))"

subsection \<open>The negotiation policy as the specification words it\<close>

text \<open>Wildcards are resolved to 2 (stereo) before pattern matching.\<close>

definition specResolve :: "AUChannelInfo \<Rightarrow> int \<times> int" where
  "specResolve ci =
     ((if sint (inChannels ci) < 0 then 2 else sint (inChannels ci)),
      (if sint (outChannels ci) < 0 then 2 else sint (outChannels ci)))"

text \<open>The priority table, first match wins.\<close>

definition specPriority :: "(int \<times> int) list" where
  "specPriority = [(2, 2), (1, 1), (1, 2), (2, 1), (0, 1), (0, 2), (2, 0), (1, 0)]"

definition specNegotiate :: "AUChannelInfo list option \<Rightarrow> nat \<times> nat" where
  "specNegotiate t =
     (case t of
        None \<Rightarrow> (2, 2)
      | Some tbl \<Rightarrow>
          (case find (\<lambda>p. p \<in> set (map specResolve tbl)) specPriority of
             None \<Rightarrow> (2, 2)
           | Some (i, oc) \<Rightarrow> (nat i, nat oc)))"

text \<open>The constraint table the plug-in reports, if it reports one.\<close>

definition reportedTable :: "SupportedNumChannels \<Rightarrow> AUChannelInfo list option" where
  "reportedTable r =
     (if infoStatus r = noErr \<and> getStatus r = noErr then Some (channelInfo r) else None)"

subsection \<open>Four-character codes: \<open>AudioUnitEffectsModule::FromOSType\<close> and \<open>ToOSType\<close>\<close>

text \<open>
  \<open>OSType\<close> is an unsigned 32-bit integer. A \<open>wxString\<close> is a sequence of Unicode
  code points; the two functions pass through its UTF-8 form, a sequence of bytes.
\<close>

type_synonym OSType = "32 word"
type_synonym byte = "8 word"
type_synonym wxString = "nat list"

text \<open>
  \<open>wxString::FromUTF8\<close> and \<open>wxString::ToUTF8\<close> belong to the wxWidgets library.
  They are modelled by the library's documented contract: well-formed UTF-8 (RFC 3629:
  shortest form, no surrogates, at most U+10FFFF) is decoded to its code points, embedded
  zero bytes included since the length is explicit, and for anything else \<open>FromUTF8\<close>
  returns the empty string.
\<close>

definition isCont :: "byte \<Rightarrow> bool" where
  "isCont c = (c AND 0xC0 = 0x80)"

fun utf8Decode :: "byte list \<Rightarrow> nat list option" where
  "utf8Decode [] = Some []"
| "utf8Decode (c # bs) =
     (if c < 0x80 then map_option ((#) (unat c)) (utf8Decode bs)
      else if 0xC2 \<le> c \<and> c \<le> 0xDF then
        (case bs of
           c1 # r \<Rightarrow>
             if isCont c1
             then map_option ((#) (unat (c AND 0x1F) * 64 + unat (c1 AND 0x3F))) (utf8Decode r)
             else None
         | _ \<Rightarrow> None)
      else if 0xE0 \<le> c \<and> c \<le> 0xEF then
        (case bs of
           c1 # c2 # r \<Rightarrow>
             (let code = unat (c AND 0x0F) * 4096 + unat (c1 AND 0x3F) * 64 + unat (c2 AND 0x3F)
              in if isCont c1 \<and> isCont c2 \<and> 0x800 \<le> code \<and> \<not> (0xD800 \<le> code \<and> code \<le> 0xDFFF)
                 then map_option ((#) code) (utf8Decode r)
                 else None)
         | _ \<Rightarrow> None)
      else if 0xF0 \<le> c \<and> c \<le> 0xF4 then
        (case bs of
           c1 # c2 # c3 # r \<Rightarrow>
             (let code = unat (c AND 0x07) * 262144 + unat (c1 AND 0x3F) * 4096
                         + unat (c2 AND 0x3F) * 64 + unat (c3 AND 0x3F)
              in if isCont c1 \<and> isCont c2 \<and> isCont c3 \<and> 0x10000 \<le> code \<and> code \<le> 0x10FFFF
                 then map_option ((#) code) (utf8Decode r)
                 else None)
         | _ \<Rightarrow> None)
      else None)"

definition FromUTF8 :: "byte list \<Rightarrow> wxString" where
  "FromUTF8 bs = (case utf8Decode bs of None \<Rightarrow> [] | Some s \<Rightarrow> s)"

definition utf8Encode :: "nat \<Rightarrow> byte list" where
  "utf8Encode n =
     (if n < 0x80 then [of_nat n]
      else if n < 0x800 then [of_nat (0xC0 + n div 64), of_nat (0x80 + n mod 64)]
      else if n < 0x10000 then
        [of_nat (0xE0 + n div 4096), of_nat (0x80 + n div 64 mod 64), of_nat (0x80 + n mod 64)]
      else
        [of_nat (0xF0 + n div 262144), of_nat (0x80 + n div 4096 mod 64),
         of_nat (0x80 + n div 64 mod 64), of_nat (0x80 + n mod 64)])"

definition ToUTF8 :: "wxString \<Rightarrow> byte list" where
  "ToUTF8 s = concat (map utf8Encode s)"

text \<open>
  \<open>(char *)&rev\<close> reads the four bytes of \<open>rev\<close> as they lie in memory. The code is
  built for little-endian machines only (Intel and ARM Macs): the lowest byte comes first.
\<close>

definition memoryBytes :: "32 word \<Rightarrow> byte list" where
  "memoryBytes w = [ucast w, ucast (drop_bit 8 w), ucast (drop_bit 16 w), ucast (drop_bit 24 w)]"

definition FromOSType :: "OSType \<Rightarrow> wxString" where
  "FromOSType type =
     (let rev = drop_bit 24 (type AND 0xff000000) OR
                drop_bit 8 (type AND 0x00ff0000) OR
                push_bit 8 (type AND 0x0000ff00) OR
                push_bit 24 (type AND 0x000000ff)
      in FromUTF8 (memoryBytes rev))"

text \<open>
  \<open>buf.data()[i]\<close> on the \<open>wxCharBuffer\<close> returned by \<open>ToUTF8\<close>: the buffer holds the
  bytes and one terminating zero; a read past that is outside the buffer and has no
  defined result (\<open>None\<close>).
\<close>

definition bufferAt :: "byte list \<Rightarrow> nat \<Rightarrow> byte option" where
  "bufferAt buf i =
     (if i < length buf then Some (buf ! i)
      else if i = length buf then Some 0
      else None)"

definition ToOSType :: "wxString \<Rightarrow> OSType option" where
  "ToOSType type =
     (let buf = ToUTF8 type in
      case (bufferAt buf 0, bufferAt buf 1, bufferAt buf 2, bufferAt buf 3) of
        (Some b0, Some b1, Some b2, Some b3) \<Rightarrow>
          Some (push_bit 24 (ucast b0) OR push_bit 16 (ucast b1) OR push_bit 8 (ucast b2) OR ucast b3)
      | _ \<Rightarrow> None)"

text \<open>The four bytes of a code in text order, and the single-byte (ASCII) condition.\<close>

definition codeBytes :: "OSType \<Rightarrow> byte list" where
  "codeBytes x = [ucast (drop_bit 24 x), ucast (drop_bit 16 x), ucast (drop_bit 8 x), ucast x]"

definition singleByteCode :: "OSType \<Rightarrow> bool" where
  "singleByteCode x = list_all (\<lambda>b. b < 0x80) (codeBytes x)"

definition singleByteString :: "wxString \<Rightarrow> bool" where
  "singleByteString s = list_all (\<lambda>c. c < 0x80) s"

subsection \<open>The parameter cache: \<open>AudioUnitWrapper::FetchSettings\<close> and \<open>StoreSettings\<close>\<close>

type_synonym AudioUnitParameterID = "32 word"

text \<open>
  The plug-in, as far as parameters go, is a store of values: \<open>parameterValue\<close> holds
  the value of every parameter the plug-in exposes in its present mode, and
  \<open>parameterInfo\<close> the name that the \<open>ParameterInfo\<close> constructor ends with, \<open>None\<close>
  when the query for \<open>kAudioUnitProperty_ParameterInfo\<close> fails. The type of values
  (\<open>AudioUnitParameterValue\<close>, a 32-bit float) is left open: the host copies values and
  zeroes them, nothing more.
\<close>

record 'v AudioUnit =
  parameterInfo :: "AudioUnitParameterID \<rightharpoonup> string"
  parameterValue :: "AudioUnitParameterID \<rightharpoonup> 'v"

definition kAudioUnitErr_InvalidParameter :: OSStatus where
  "kAudioUnitErr_InvalidParameter = - 10878"

text \<open>
  \<open>AudioUnitGetParameter\<close>: \<open>None\<close> stands for a non-zero status, with nothing written
  to the out-parameter. \<open>AudioUnitSetParameter\<close>: a parameter the plug-in does not expose
  is refused and the plug-in stays as it is.
\<close>

definition AudioUnitGetParameter :: "'v AudioUnit \<Rightarrow> AudioUnitParameterID \<Rightarrow> 'v option" where
  "AudioUnitGetParameter u ID = parameterValue u ID"

definition AudioUnitSetParameter ::
  "'v AudioUnit \<Rightarrow> AudioUnitParameterID \<Rightarrow> 'v \<Rightarrow> OSStatus \<times> 'v AudioUnit" where
  "AudioUnitSetParameter u ID v =
     (if ID \<in> dom (parameterValue u)
      then (noErr, u\<lparr>parameterValue := (parameterValue u)(ID \<mapsto> v)\<rparr>)
      else (kAudioUnitErr_InvalidParameter, u))"

text \<open>
  \<open>ParameterInfo\<close>: of the object the constructor builds, the two functions read only
  whether \<open>mName\<close> holds a value.
\<close>

record ParameterInfo =
  mName :: "string option"

definition makeParameterInfo :: "'v AudioUnit \<Rightarrow> AudioUnitParameterID \<Rightarrow> ParameterInfo" where
  "makeParameterInfo u parmID = \<lparr>mName = parameterInfo u parmID\<rparr>"

text \<open>
  \<open>AudioUnitEffectSettings\<close>: its member \<open>values\<close>, a map from parameter ids to values.
\<close>

type_synonym 'v AudioUnitEffectSettings = "AudioUnitParameterID \<rightharpoonup> 'v"

text \<open>
  Modelled from the spec: \<open>AudioUnitEffectSettings::ResetValues\<close> is declared in a
  header that is not among the sources. The specification says that \<open>FetchSettings\<close>
  "zero-initializes the cache" and that a value whose query fails "stays at its reset
  default"; the caller's comment reads "First zero out all values". Every value held
  becomes zero; the keys stay.
\<close>

definition ResetValues :: "'v::zero AudioUnitEffectSettings \<Rightarrow> 'v AudioUnitEffectSettings" where
  "ResetValues settings = (\<lambda>ID. map_option (\<lambda>_. 0) (settings ID))"

text \<open>
  \<open>AudioUnitWrapper\<close>: the plug-in handle \<open>mUnit\<close> and the list \<open>mParameters\<close> of
  declared parameter ids, \<open>None\<close> when the array was never fetched.
\<close>

record 'v AudioUnitWrapper =
  mUnit :: "'v AudioUnit"
  mParameters :: "AudioUnitParameterID list option"

text \<open>
  \<open>ForEachParameter\<close>. The visitor's captured variables are the state it transforms:
  the plug-in and whatever else the lambda captures by reference. The loop builds a
  \<open>ParameterInfo\<close> from the plug-in for each id and stops when the visitor returns false.
\<close>

fun visitParameters ::
  "(ParameterInfo \<Rightarrow> AudioUnitParameterID \<Rightarrow> 'v AudioUnit \<times> 'c \<Rightarrow> bool \<times> 'v AudioUnit \<times> 'c) \<Rightarrow>
   AudioUnitParameterID list \<Rightarrow> 'v AudioUnit \<times> 'c \<Rightarrow> 'v AudioUnit \<times> 'c" where
  "visitParameters visitor [] st = st"
| "visitParameters visitor (ID # ids) st =
     (case visitor (makeParameterInfo (fst st) ID) ID st of
        (continue, st') \<Rightarrow> if \<not> continue then st' else visitParameters visitor ids st')"

definition ForEachParameter ::
  "AudioUnitParameterID list option \<Rightarrow>
   (ParameterInfo \<Rightarrow> AudioUnitParameterID \<Rightarrow> 'v AudioUnit \<times> 'c \<Rightarrow> bool \<times> 'v AudioUnit \<times> 'c) \<Rightarrow>
   'v AudioUnit \<times> 'c \<Rightarrow> 'v AudioUnit \<times> 'c" where
  "ForEachParameter params visitor st =
     (case params of None \<Rightarrow> st | Some ids \<Rightarrow> visitParameters visitor ids st)"

text \<open>The lambda of \<open>FetchSettings\<close>; it captures the settings.\<close>

definition fetchVisitor ::
  "ParameterInfo \<Rightarrow> AudioUnitParameterID \<Rightarrow> 'v AudioUnit \<times> 'v AudioUnitEffectSettings \<Rightarrow>
   bool \<times> 'v AudioUnit \<times> 'v AudioUnitEffectSettings" where
  "fetchVisitor pinfo ID st =
     (case st of (u, settings) \<Rightarrow>
        (case (mName pinfo, AudioUnitGetParameter u ID) of
           (Some _, Some v) \<Rightarrow> (True, u, settings(ID \<mapsto> v))
         | _ \<Rightarrow> (True, u, settings)))"

definition FetchSettings ::
  "'v::zero AudioUnitWrapper \<Rightarrow> 'v AudioUnitEffectSettings \<Rightarrow> bool \<times> 'v AudioUnitEffectSettings" where
  "FetchSettings w settings =
     (case ForEachParameter (mParameters w) fetchVisitor (mUnit w, ResetValues settings) of
        (u, settings') \<Rightarrow> (True, settings'))"

text \<open>
  The lambda of \<open>StoreSettings\<close>; the settings are constant, the plug-in is what changes.
  The status of \<open>AudioUnitSetParameter\<close> is looked at and dropped.
\<close>

definition storeVisitor ::
  "'v AudioUnitEffectSettings \<Rightarrow> ParameterInfo \<Rightarrow> AudioUnitParameterID \<Rightarrow> 'v AudioUnit \<times> unit \<Rightarrow>
   bool \<times> 'v AudioUnit \<times> unit" where
  "storeVisitor settings pinfo ID st =
     (case st of (u, _) \<Rightarrow>
        (case mName pinfo of
           Some _ \<Rightarrow>
             (case settings ID of
                Some v \<Rightarrow> (True, snd (AudioUnitSetParameter u ID v), ())
              | None \<Rightarrow> (True, u, ()))
         | None \<Rightarrow> (True, u, ())))"

definition StoreSettings ::
  "'v AudioUnitWrapper \<Rightarrow> 'v AudioUnitEffectSettings \<Rightarrow> bool \<times> 'v AudioUnitWrapper" where
  "StoreSettings w settings =
     (case ForEachParameter (mParameters w) (storeVisitor settings) (mUnit w, ()) of
        (u, _) \<Rightarrow> (True, w\<lparr>mUnit := u\<rparr>))"

text \<open>
  The parameters \<open>StoreSettings\<close> and \<open>FetchSettings\<close> act on: the declared ids for which
  the \<open>ParameterInfo\<close> query gives a name.
\<close>

definition declared :: "'v AudioUnitWrapper \<Rightarrow> AudioUnitParameterID list" where
  "declared w = (case mParameters w of None \<Rightarrow> [] | Some ids \<Rightarrow> ids)"

definition named :: "'v AudioUnitWrapper \<Rightarrow> AudioUnitParameterID \<Rightarrow> bool" where
  "named w ID = (ID \<in> set (declared w) \<and> parameterInfo (mUnit w) ID \<noteq> None)"

subsection \<open>The effect instance: \<open>AudioUnitEffect\<close>\<close>

text \<open>
  Indexing an \<open>ArrayOf\<close> or a raw pointer outside its allocation is undefined in C++.
  The model makes such an access a fault, the \<open>Inl\<close> of the result.
\<close>

datatype fault = BadAccess

text \<open>A counted \<open>for\<close> loop over the indices \<open>idx\<close>; a fault in the body ends it.\<close>

fun forEach :: "('i \<Rightarrow> 'st \<Rightarrow> fault + 'st) \<Rightarrow> 'i list \<Rightarrow> 'st \<Rightarrow> fault + 'st" where
  "forEach body [] st = Inr st"
| "forEach body (i # idx) st =
     (case body i st of Inl f \<Rightarrow> Inl f | Inr st' \<Rightarrow> forEach body idx st')"

text \<open>
  A \<open>Float64\<close> is the real number that the double denotes. What the machine computes
  from doubles in \<open>GetLatency\<close>, a rounded product and its conversion to an integer, is
  not real arithmetic and is a parameter of that function.
\<close>

type_synonym Float64 = real

text \<open>
  One \<open>AudioBuffer\<close> of an \<open>AudioBufferList\<close>. \<open>mData\<close> is a pointer in the source; here
  it is the samples it points to at the time of the call.
\<close>

record 'a AudioBuffer =
  mNumberChannels :: "32 word"
  mData :: "'a list"
  mDataByteSize :: "32 word"

definition blankBuffer :: "'a AudioBuffer" where
  "blankBuffer = \<lparr>mNumberChannels = 0, mData = [], mDataByteSize = 0\<rparr>"

text \<open>
  The members of \<open>AudioUnitEffect\<close> that the modelled functions touch. \<open>'a\<close> is the
  type of samples (\<open>float\<close>: the host adds samples and zeroes them, nothing more); \<open>'s\<close>
  is the type of the slaves, effects themselves. \<open>mInputList\<close> and \<open>mOutputList\<close> are
  the \<open>mBuffers\<close> arrays of the two buffer lists, \<open>mSampleTime\<close> is
  \<open>mTimeStamp.mSampleTime\<close>.
\<close>

record ('a, 's) AudioUnitEffect =
  mAudioIns :: nat
  mAudioOuts :: nat
  mBlockSize :: nat
  mSampleRate :: Float64
  mUseLatency :: bool
  mLatencyDone :: bool
  mReady :: bool
  mUnitInitialized :: bool
  mInputList :: "'a AudioBuffer list"
  mOutputList :: "'a AudioBuffer list"
  mSampleTime :: Float64
  mMasterIn :: "'a list list"
  mMasterOut :: "'a list list"
  mNumSamples :: nat
  mSlaves :: "'s list"

text \<open>
  The statuses the plug-in returns to the calls of \<open>SetRateAndChannels\<close> and
  \<open>ProcessInitialize\<close>, in the order of the calls.
\<close>

record InitializeReplies =
  sampleRateGlobal :: OSStatus
  sampleRateInput :: OSStatus
  streamFormatInput :: OSStatus
  sampleRateOutput :: OSStatus
  streamFormatOutput :: OSStatus
  unitInitialize :: OSStatus
  setRenderCallback :: OSStatus
  unitReset :: OSStatus

definition SetRateAndChannels ::
  "('a, 's) AudioUnitEffect \<Rightarrow> InitializeReplies \<Rightarrow> bool \<times> ('a, 's) AudioUnitEffect" where
  "SetRateAndChannels e r =
     (let e0 = (if mUnitInitialized e then e\<lparr>mUnitInitialized := False\<rparr> else e) in
      if sampleRateGlobal r \<noteq> noErr then (False, e0)
      else if mAudioIns e0 > 0 \<and> sampleRateInput r \<noteq> noErr then (False, e0)
      else if mAudioIns e0 > 0 \<and> streamFormatInput r \<noteq> noErr then (False, e0)
      else if mAudioOuts e0 > 0 \<and> sampleRateOutput r \<noteq> noErr then (False, e0)
      else if mAudioOuts e0 > 0 \<and> streamFormatOutput r \<noteq> noErr then (False, e0)
      else if unitInitialize r \<noteq> noErr then (False, e0)
      else (True, e0\<lparr>mUnitInitialized := True\<rparr>))"

text \<open>
  \<open>ProcessInitialize\<close>. \<open>reinit(n)\<close> allocates \<open>n\<close> elements; the write to
  \<open>mInputList[0].mNumberBuffers\<close> that follows is inside the allocation only when
  \<open>n\<close> is not zero. \<open>mLatencyDone\<close> is cleared on the successful path only.
\<close>

definition ProcessInitialize ::
  "('a, 's) AudioUnitEffect \<Rightarrow> InitializeReplies \<Rightarrow> fault + bool \<times> ('a, 's) AudioUnitEffect" where
  "ProcessInitialize e r =
     (if mAudioIns e = 0 \<or> mAudioOuts e = 0 then Inl BadAccess
      else
        (let e1 = e\<lparr>mInputList := replicate (mAudioIns e) blankBuffer,
                     mOutputList := replicate (mAudioOuts e) blankBuffer,
                     mSampleTime := 0\<rparr> in
         case SetRateAndChannels e1 r of
           (False, e2) \<Rightarrow> Inr (False, e2)
         | (True, e2) \<Rightarrow>
             if setRenderCallback r \<noteq> noErr then Inr (False, e2)
             else if unitReset r \<noteq> noErr then Inr (False, e2)
             else Inr (True, e2\<lparr>mLatencyDone := False, mReady := True\<rparr>)))"

text \<open>
  \<open>GetLatency\<close>. The first argument stands for \<open>sampleCount(latency * mSampleRate)\<close>
  as the machine computes it from the two doubles: their product in IEEE arithmetic,
  rounded to a double, and the conversion of that double to \<open>long long\<close> (undefined in
  C++ where the product is outside the range of \<open>long long\<close>). It is a parameter: no
  rounding and no range is assumed of it. The last argument is what the plug-in writes
  for \<open>kAudioUnitProperty_Latency\<close>, \<open>None\<close> when it writes nothing and the local
  \<open>latency\<close> keeps its initial 0.0; the status of the query is not looked at.
\<close>

definition GetLatency ::
  "(Float64 \<Rightarrow> Float64 \<Rightarrow> int) \<Rightarrow> ('a, 's) AudioUnitEffect \<Rightarrow> Float64 option \<Rightarrow>
   int \<times> ('a, 's) AudioUnitEffect" where
  "GetLatency productSamples e reply =
     (if mUseLatency e \<and> \<not> mLatencyDone e then
        (let e1 = e\<lparr>mLatencyDone := True\<rparr>;
             latency = (case reply of None \<Rightarrow> 0 | Some l \<Rightarrow> l)
         in (productSamples latency (mSampleRate e1), e1))
      else (0, e))"

text \<open>
  A run of \<open>GetLatency\<close> calls on one effect, each with the plug-in's reply to it: the
  values returned, in order, and the effect after the last call.
\<close>

fun GetLatencyCalls ::
  "(Float64 \<Rightarrow> Float64 \<Rightarrow> int) \<Rightarrow> ('a, 's) AudioUnitEffect \<Rightarrow> Float64 option list \<Rightarrow>
   int list \<times> ('a, 's) AudioUnitEffect" where
  "GetLatencyCalls productSamples e [] = ([], e)"
| "GetLatencyCalls productSamples e (reply # replies) =
     (case GetLatency productSamples e reply of
        (v, e1) \<Rightarrow>
          (case GetLatencyCalls productSamples e1 replies of (vs, e2) \<Rightarrow> (v # vs, e2)))"

text \<open>
  \<open>ProcessBlock\<close>. The two loops store, for every channel, the caller's pointer and the
  byte size in the buffer lists; \<open>status\<close> is what \<open>AudioUnitRender\<close> returns. The
  samples the plug-in writes to the output block are the plug-in's business and are not
  modelled.
\<close>

definition setBuffer ::
  "nat \<Rightarrow> 'a list list \<Rightarrow> nat \<Rightarrow> 'a AudioBuffer list \<Rightarrow> fault + 'a AudioBuffer list" where
  "setBuffer blockLen block i bufs =
     (if i < length bufs \<and> i < length block
      then Inr (bufs[i := \<lparr>mNumberChannels = 1, mData = block ! i,
                           mDataByteSize = of_nat (4 * blockLen)\<rparr>])
      else Inl BadAccess)"

definition ProcessBlock ::
  "('a, 's) AudioUnitEffect \<Rightarrow> OSStatus \<Rightarrow> 'a list list \<Rightarrow> 'a list list \<Rightarrow> nat \<Rightarrow>
   fault + nat \<times> ('a, 's) AudioUnitEffect" where
  "ProcessBlock e status inBlock outBlock blockLen =
     (case forEach (setBuffer blockLen inBlock) [0..<mAudioIns e] (mInputList e) of
        Inl f \<Rightarrow> Inl f
      | Inr ins \<Rightarrow>
          (case forEach (setBuffer blockLen outBlock) [0..<mAudioOuts e] (mOutputList e) of
             Inl f \<Rightarrow> Inl f
           | Inr outs \<Rightarrow>
               (let e1 = e\<lparr>mInputList := ins, mOutputList := outs\<rparr> in
                if status \<noteq> noErr then Inr (0, e1)
                else Inr (blockLen, e1\<lparr>mSampleTime := mSampleTime e1 + real blockLen\<rparr>))))"

text \<open>
  The state \<open>ProcessInitialize\<close> leaves the buffer lists in, and blocks that hold a
  pointer for every channel of the effect.
\<close>

definition allocated :: "('a, 's) AudioUnitEffect \<Rightarrow> bool" where
  "allocated e = (length (mInputList e) = mAudioIns e \<and> length (mOutputList e) = mAudioOuts e)"

definition blocksFit :: "('a, 's) AudioUnitEffect \<Rightarrow> 'a list list \<Rightarrow> 'a list list \<Rightarrow> bool" where
  "blocksFit e inBlock outBlock = (mAudioIns e \<le> length inBlock \<and> mAudioOuts e \<le> length outBlock)"

subsection \<open>Realtime processing: \<open>RealtimeProcessStart\<close>, \<open>RealtimeProcess\<close>, \<open>RealtimeProcessEnd\<close>\<close>

text \<open>
  \<open>memset(mMasterIn[i].get(), 0, mBlockSize * sizeof(float))\<close>: the first
  \<open>mBlockSize\<close> samples of channel \<open>i\<close> become zero.
\<close>

definition zeroChannel :: "nat \<Rightarrow> nat \<Rightarrow> 'a::zero list list \<Rightarrow> fault + 'a list list" where
  "zeroChannel blockSize i master =
     (if i < length master \<and> blockSize \<le> length (master ! i)
      then Inr (master[i := replicate blockSize 0 @ drop blockSize (master ! i)])
      else Inl BadAccess)"

definition RealtimeProcessStart ::
  "('a::zero, 's) AudioUnitEffect \<Rightarrow> fault + bool \<times> ('a, 's) AudioUnitEffect" where
  "RealtimeProcessStart e =
     (case forEach (zeroChannel (mBlockSize e)) [0..<mAudioIns e] (mMasterIn e) of
        Inl f \<Rightarrow> Inl f
      | Inr m \<Rightarrow> Inr (True, e\<lparr>mMasterIn := m, mNumSamples := 0\<rparr>))"

text \<open>\<open>mMasterIn[c][s] += inbuf[c][s]\<close>, and the loop over \<open>s\<close> around it.\<close>

definition addSample :: "'a::plus list list \<Rightarrow> nat \<Rightarrow> nat \<Rightarrow> 'a list list \<Rightarrow> fault + 'a list list" where
  "addSample inbuf c s master =
     (if c < length master \<and> s < length (master ! c) \<and> c < length inbuf \<and> s < length (inbuf ! c)
      then Inr (master[c := (master ! c)[s := master ! c ! s + inbuf ! c ! s]])
      else Inl BadAccess)"

definition addChannel :: "'a::plus list list \<Rightarrow> nat \<Rightarrow> nat \<Rightarrow> 'a list list \<Rightarrow> fault + 'a list list" where
  "addChannel inbuf numSamples c master = forEach (addSample inbuf c) [0..<numSamples] master"

text \<open>
  \<open>RealtimeProcess\<close> on the master. \<open>wxASSERT(numSamples <= mBlockSize)\<close> reports
  in builds that keep assertions and stops nothing; a sample index past the allocation
  is the fault of the access itself. \<open>status\<close> is what \<open>AudioUnitRender\<close> returns to the
  slave.
\<close>

definition RealtimeProcess ::
  "('a::plus, ('a, 't) AudioUnitEffect) AudioUnitEffect \<Rightarrow> OSStatus \<Rightarrow> int \<Rightarrow>
   'a list list \<Rightarrow> 'a list list \<Rightarrow> nat \<Rightarrow>
   fault + nat \<times> ('a, ('a, 't) AudioUnitEffect) AudioUnitEffect" where
  "RealtimeProcess e status grp inbuf outbuf numSamples =
     (case forEach (addChannel inbuf numSamples) [0..<mAudioIns e] (mMasterIn e) of
        Inl f \<Rightarrow> Inl f
      | Inr m \<Rightarrow>
          (let e1 = e\<lparr>mMasterIn := m, mNumSamples := max numSamples (mNumSamples e)\<rparr> in
           if grp < 0 \<or> length (mSlaves e1) \<le> nat grp then Inl BadAccess
           else
             (case ProcessBlock (mSlaves e1 ! nat grp) status inbuf outbuf numSamples of
                Inl f \<Rightarrow> Inl f
              | Inr (frames, slave) \<Rightarrow>
                  Inr (frames, e1\<lparr>mSlaves := (mSlaves e1)[nat grp := slave]\<rparr>))))"

text \<open>\<open>RealtimeProcessEnd\<close>: the master's own \<open>ProcessBlock\<close> over the summing buffers.\<close>

definition RealtimeProcessEnd ::
  "('a, 's) AudioUnitEffect \<Rightarrow> OSStatus \<Rightarrow> fault + bool \<times> ('a, 's) AudioUnitEffect" where
  "RealtimeProcessEnd e status =
     (case ProcessBlock e status (mMasterIn e) (mMasterOut e) (mNumSamples e) of
        Inl f \<Rightarrow> Inl f
      | Inr (frames, e') \<Rightarrow> Inr (True, e'))"

text \<open>
  One audio cycle up to its end: \<open>RealtimeProcessStart\<close>, then the \<open>RealtimeProcess\<close>
  calls in order. A call is its arguments and the status of the slave's render.
\<close>

record 'a ProcessCall =
  callGroup :: int
  callIn :: "'a list list"
  callOut :: "'a list list"
  callSamples :: nat
  callStatus :: OSStatus

fun RealtimeProcessCalls ::
  "('a::plus, ('a, 't) AudioUnitEffect) AudioUnitEffect \<Rightarrow> 'a ProcessCall list \<Rightarrow>
   fault + ('a, ('a, 't) AudioUnitEffect) AudioUnitEffect" where
  "RealtimeProcessCalls e [] = Inr e"
| "RealtimeProcessCalls e (c # cs) =
     (case RealtimeProcess e (callStatus c) (callGroup c) (callIn c) (callOut c) (callSamples c) of
        Inl f \<Rightarrow> Inl f
      | Inr (frames, e') \<Rightarrow> RealtimeProcessCalls e' cs)"

definition audioCycle ::
  "('a::{plus,zero}, ('a, 't) AudioUnitEffect) AudioUnitEffect \<Rightarrow> 'a ProcessCall list \<Rightarrow>
   fault + ('a, ('a, 't) AudioUnitEffect) AudioUnitEffect" where
  "audioCycle e calls =
     (case RealtimeProcessStart e of
        Inl f \<Rightarrow> Inl f
      | Inr (ok, e0) \<Rightarrow> RealtimeProcessCalls e0 calls)"

text \<open>
  The summing buffers as \<open>RealtimeInitialize\<close> allocates them
  (\<open>mMasterIn.reinit(mAudioIns, mBlockSize, true)\<close>, \<open>mMasterOut.reinit(mAudioOuts,
  mBlockSize)\<close>) together with the buffer lists of its \<open>ProcessInitialize\<close>.
\<close>

definition masterAllocated :: "('a, 's) AudioUnitEffect \<Rightarrow> bool" where
  "masterAllocated e =
     (allocated e \<and>
      length (mMasterIn e) = mAudioIns e \<and> list_all (\<lambda>ch. length ch = mBlockSize e) (mMasterIn e) \<and>
      length (mMasterOut e) = mAudioOuts e)"

text \<open>
  A \<open>RealtimeProcess\<close> call whose arguments are valid for the master \<open>e\<close>: at most
  \<open>mBlockSize\<close> frames, an input block with \<open>numSamples\<close> samples in each of the
  master's input channels, and a group index of a slave that is initialized and finds a
  pointer for each of its channels in the two blocks.
\<close>

definition callFits ::
  "('a, ('a, 't) AudioUnitEffect) AudioUnitEffect \<Rightarrow> 'a ProcessCall \<Rightarrow> bool" where
  "callFits e c =
     (callSamples c \<le> mBlockSize e \<and>
      mAudioIns e \<le> length (callIn c) \<and>
      list_all (\<lambda>ch. callSamples c \<le> length ch) (take (mAudioIns e) (callIn c)) \<and>
      0 \<le> callGroup c \<and> nat (callGroup c) < length (mSlaves e) \<and>
      allocated (mSlaves e ! nat (callGroup c)) \<and>
      blocksFit (mSlaves e ! nat (callGroup c)) (callIn c) (callOut c))"

text \<open>
  The samples at channel \<open>ch\<close>, index \<open>s\<close> of the calls that have a sample there, in
  the order of the calls.
\<close>

definition samplesAt :: "'a ProcessCall list \<Rightarrow> nat \<Rightarrow> nat \<Rightarrow> 'a list" where
  "samplesAt calls ch s = map (\<lambda>c. callIn c ! ch ! s) (filter (\<lambda>c. s < callSamples c) calls)"

text \<open>
  What no call of a cycle changes in an effect: its channel counts and the sizes of its
  buffer lists.
\<close>

definition channelShape :: "('a, 's) AudioUnitEffect \<Rightarrow> nat \<times> nat \<times> nat \<times> nat" where
  "channelShape e = (mAudioIns e, mAudioOuts e, length (mInputList e), length (mOutputList e))"

subsection \<open>Presets: \<open>AudioUnitEffect::SavePreset\<close> and \<open>LoadPreset\<close>\<close>

type_synonym RegistryPath = string

text \<open>
  Modelled from the spec: the configuration store behind \<open>mHost\<close>
  (\<open>GetPrivateConfig\<close>, \<open>SetPrivateConfig\<close>, \<open>RemovePrivateConfig\<close> of the host
  interface, which is not among the sources). The specification gives it as
  "get(group, key, default) -> value / set(group, key, value) -> bool": values are found
  by group and key, a read reports whether the key was found and yields the default
  otherwise, and a write reports whether it was done. A store that does not accept
  writes stays as it is.
\<close>

record ConfigStore =
  entries :: "RegistryPath \<times> string \<rightharpoonup> string"
  accepting :: bool

definition GetPrivateConfig ::
  "ConfigStore \<Rightarrow> RegistryPath \<Rightarrow> string \<Rightarrow> string \<Rightarrow> bool \<times> string" where
  "GetPrivateConfig host grp key defval =
     (case entries host (grp, key) of None \<Rightarrow> (False, defval) | Some v \<Rightarrow> (True, v))"

definition SetPrivateConfig ::
  "ConfigStore \<Rightarrow> RegistryPath \<Rightarrow> string \<Rightarrow> string \<Rightarrow> bool \<times> ConfigStore" where
  "SetPrivateConfig host grp key v =
     (if accepting host then (True, host\<lparr>entries := (entries host)((grp, key) \<mapsto> v)\<rparr>)
      else (False, host))"

definition RemovePrivateConfig ::
  "ConfigStore \<Rightarrow> RegistryPath \<Rightarrow> string \<Rightarrow> bool \<times> ConfigStore" where
  "RemovePrivateConfig host grp key =
     (if accepting host then (True, host\<lparr>entries := (entries host)((grp, key) := None)\<rparr>)
      else (False, host))"

definition PRESET_KEY :: string where
  "PRESET_KEY = ''Data''"

text \<open>
  The library and program functions the two methods call and the sources do not hold,
  taken as parameters: \<open>CommandParameters::SetParameters\<close>, which reads the flat
  name=value text into a table that \<open>Read\<close> looks names up in (\<open>None\<close> when it returns
  false); \<open>wxBase64Encode\<close>, given the data that lie at its pointer and the number of
  bytes it is told to read, a \<open>size_t\<close> (what it yields when told to read more than the
  data is the library's and the machine's business and is left to the parameter);
  \<open>wxBase64Decode\<close>; whether \<open>CFDataCreateWithBytesNoCopy\<close> and
  \<open>CFPropertyListCreateWithData\<close> return an object for a sequence of bytes.
\<close>

record 'v Collaborators =
  SetParameters :: "string \<Rightarrow> (string \<rightharpoonup> 'v) option"
  wxBase64Encode :: "byte list \<Rightarrow> nat \<Rightarrow> string"
  wxBase64Decode :: "string \<Rightarrow> byte list"
  dataCreated :: "byte list \<Rightarrow> bool"
  propertyListCreated :: "byte list \<Rightarrow> bool"

text \<open>
  The plug-in as the preset code sees it: its parameters; the two statuses and the ids it
  answers the \<open>kAudioUnitProperty_ParameterList\<close> queries with; \<open>classData\<close>, the
  serialization (\<open>CFPropertyListCreateData\<close>, \<open>None\<close> for a null result) of the class info
  it reports in a given parameter state; and how it takes a class info that is set on
  it: the status, and the parameter state when the status is \<open>noErr\<close>.
\<close>

record 'v PresetUnit =
  unitParameters :: "'v AudioUnit"
  parameterListInfo :: OSStatus
  parameterListGet :: OSStatus
  parameterList :: "AudioUnitParameterID list"
  classData :: "'v AudioUnit \<Rightarrow> byte list option"
  classInfoStatus :: "byte list \<Rightarrow> OSStatus"
  classInfoState :: "byte list \<Rightarrow> 'v AudioUnit"

text \<open>
  \<open>SetAutomationParameters\<close>. \<open>ParameterInfo::Get\<close> of this class fails when the info
  query fails and also when the name is empty; a parameter whose name the table holds
  is set, and the status of the set is not looked at.
\<close>

definition setNamedParameter ::
  "(string \<rightharpoonup> 'v) \<Rightarrow> AudioUnitParameterID \<Rightarrow> 'v AudioUnit \<Rightarrow> 'v AudioUnit" where
  "setNamedParameter parms ID u =
     (case parameterInfo u ID of
        None \<Rightarrow> u
      | Some name \<Rightarrow>
          if name = [] then u
          else (case parms name of
                  None \<Rightarrow> u
                | Some d \<Rightarrow> snd (AudioUnitSetParameter u ID d)))"

definition SetAutomationParameters ::
  "'v PresetUnit \<Rightarrow> (string \<rightharpoonup> 'v) \<Rightarrow> bool \<times> 'v PresetUnit" where
  "SetAutomationParameters unit parms =
     (if parameterListInfo unit \<noteq> noErr then (False, unit)
      else if parameterListGet unit \<noteq> noErr then (False, unit)
      else (True, unit\<lparr>unitParameters :=
                          fold (setNamedParameter parms) (parameterList unit) (unitParameters unit)\<rparr>))"

text \<open>
  \<open>SavePreset\<close>. Neither the status of setting the preset name nor that of reading
  the class info is looked at. \<open>CFDataGetLength\<close> is narrowed to the \<open>SInt32\<close>
  \<open>length\<close> before the test for zero, and \<open>length\<close> is passed for the \<open>size_t\<close>
  count of \<open>wxBase64Encode\<close>: it is widened to 64 bits with its sign, so that a negative
  \<open>length\<close> (data of \<open>2^31\<close> bytes or more) becomes a count close to \<open>2^64\<close>.
\<close>

definition SavePreset ::
  "'v Collaborators \<Rightarrow> ConfigStore \<Rightarrow> 'v PresetUnit \<Rightarrow> RegistryPath \<Rightarrow> bool \<times> ConfigStore" where
  "SavePreset lib host unit grp =
     (case classData unit (unitParameters unit) of
        None \<Rightarrow> (False, host)
      | Some bytes \<Rightarrow>
          (let len = (of_nat (length bytes) :: 32 word) in
           if len \<noteq> 0 then
             (case SetPrivateConfig host grp PRESET_KEY
                     (wxBase64Encode lib bytes (unat (scast len :: 64 word))) of
                (False, host') \<Rightarrow> (False, host')
              | (True, host') \<Rightarrow> (True, host'))
           else (True, host)))"

text \<open>
  \<open>LoadPreset\<close>, second part: the blob under \<open>PRESET_KEY\<close>. The result is the boolean,
  the store, the plug-in and the plug-ins of the slaves; a slave that refuses the class
  info is logged and left as it is.
\<close>

definition setClassInfo :: "byte list \<Rightarrow> 'v PresetUnit \<Rightarrow> 'v PresetUnit" where
  "setClassInfo content unit =
     (if classInfoStatus unit content \<noteq> noErr then unit
      else unit\<lparr>unitParameters := classInfoState unit content\<rparr>)"

definition LoadPresetBlob ::
  "'v Collaborators \<Rightarrow> ConfigStore \<Rightarrow> 'v PresetUnit \<Rightarrow> 'v PresetUnit list \<Rightarrow> RegistryPath \<Rightarrow>
   bool \<times> ConfigStore \<times> 'v PresetUnit \<times> 'v PresetUnit list" where
  "LoadPresetBlob lib host unit slaves grp =
     (case GetPrivateConfig host grp PRESET_KEY [] of
        (False, parms) \<Rightarrow> (False, host, unit, slaves)
      | (True, parms) \<Rightarrow>
          (let buf = wxBase64Decode lib parms in
           if length buf = 0 then (False, host, unit, slaves)
           else if \<not> dataCreated lib buf then (False, host, unit, slaves)
           else if \<not> propertyListCreated lib buf then (False, host, unit, slaves)
           else if classInfoStatus unit buf \<noteq> noErr then (False, host, unit, slaves)
           else (True, host, setClassInfo buf unit, map (setClassInfo buf) slaves)))"

text \<open>\<open>LoadPreset\<close>: the legacy entry first.\<close>

definition LoadPreset ::
  "'v Collaborators \<Rightarrow> ConfigStore \<Rightarrow> 'v PresetUnit \<Rightarrow> 'v PresetUnit list \<Rightarrow> RegistryPath \<Rightarrow>
   bool \<times> ConfigStore \<times> 'v PresetUnit \<times> 'v PresetUnit list" where
  "LoadPreset lib host unit slaves grp =
     (case GetPrivateConfig host grp ''Parameters'' [] of
        (True, parms) \<Rightarrow>
          (case SetParameters lib parms of
             None \<Rightarrow> (True, host, unit, slaves)
           | Some eap \<Rightarrow>
               (case SetAutomationParameters unit eap of
                  (False, unit') \<Rightarrow> (True, host, unit', slaves)
                | (True, unit') \<Rightarrow>
                    (case SavePreset lib host unit' grp of
                       (False, host') \<Rightarrow> (True, host', unit', slaves)
                     | (True, host') \<Rightarrow>
                         (True, snd (RemovePrivateConfig host' grp ''Parameters''), unit', slaves))))
      | (False, parms) \<Rightarrow> LoadPresetBlob lib host unit slaves grp)"

text \<open>Whether a load finds the legacy entry of a group.\<close>

definition legacyFound :: "ConfigStore \<Rightarrow> RegistryPath \<Rightarrow> bool" where
  "legacyFound host grp = fst (GetPrivateConfig host grp ''Parameters'' [])"

text \<open>Concrete data for the examples: a stereo effect at 44100 Hz and a plug-in that accepts every call.\<close>

definition allAccepted :: InitializeReplies where
  "allAccepted = \<lparr>sampleRateGlobal = 0, sampleRateInput = 0, streamFormatInput = 0,
                  sampleRateOutput = 0, streamFormatOutput = 0, unitInitialize = 0,
                  setRenderCallback = 0, unitReset = 0\<rparr>"

definition stereoEffect :: "(int, (int, unit) AudioUnitEffect) AudioUnitEffect" where
  "stereoEffect = \<lparr>mAudioIns = 2, mAudioOuts = 2, mBlockSize = 4, mSampleRate = 44100,
                   mUseLatency = True, mLatencyDone = False, mReady = False,
                   mUnitInitialized = False, mInputList = [], mOutputList = [],
                   mSampleTime = 0, mMasterIn = [], mMasterOut = [], mNumSamples = 0,
                   mSlaves = []\<rparr>"

text \<open>The stereo effect after a successful \<open>ProcessInitialize\<close>.\<close>

definition readyStereo :: "(int, (int, unit) AudioUnitEffect) AudioUnitEffect" where
  "readyStereo = stereoEffect\<lparr>mInputList := [blankBuffer, blankBuffer],
                              mOutputList := [blankBuffer, blankBuffer],
                              mUnitInitialized := True, mReady := True\<rparr>"

text \<open>
  For the latency examples, the machine's product and conversion where they are exact:
  when the product of the two doubles is an integer of magnitude at most \<open>2^53\<close> it is
  itself a double, so the IEEE product is that integer without rounding and its
  conversion to \<open>long long\<close> is that integer. One second of latency at 44100 Hz is such a
  product. Elsewhere the function is left at 0 and the examples do not use it.
\<close>

definition exactProductSamples :: "Float64 \<Rightarrow> Float64 \<Rightarrow> int" where
  "exactProductSamples l r = (if l * r \<in> \<int> \<and> \<bar>l * r\<bar> \<le> 2 ^ 53 then \<lfloor>l * r\<rfloor> else 0)"

text \<open>
  A master with two initialized stereo slaves and summing buffers that still hold the
  samples of an earlier cycle, and a cycle of two calls with constant input: three
  frames of 1 and 2 for the first group, two frames of 10 and 20 for the second.
\<close>

definition stereoSlave :: "(int, unit) AudioUnitEffect" where
  "stereoSlave = \<lparr>mAudioIns = 2, mAudioOuts = 2, mBlockSize = 4, mSampleRate = 44100,
                  mUseLatency = True, mLatencyDone = False, mReady = True,
                  mUnitInitialized = True, mInputList = [blankBuffer, blankBuffer],
                  mOutputList = [blankBuffer, blankBuffer],
                  mSampleTime = 0, mMasterIn = [], mMasterOut = [], mNumSamples = 0,
                  mSlaves = []\<rparr>"

definition stereoMaster :: "(int, (int, unit) AudioUnitEffect) AudioUnitEffect" where
  "stereoMaster = readyStereo\<lparr>mMasterIn := [[9, 9, 9, 9], [8, 8, 8, 8]],
                               mMasterOut := [[0, 0, 0, 0], [0, 0, 0, 0]],
                               mNumSamples := 4,
                               mSlaves := [stereoSlave, stereoSlave]\<rparr>"

definition twoCalls :: "int ProcessCall list" where
  "twoCalls =
     [\<lparr>callGroup = 0, callIn = [[1, 1, 1], [2, 2, 2]], callOut = [[0, 0, 0], [0, 0, 0]],
       callSamples = 3, callStatus = 0\<rparr>,
      \<lparr>callGroup = 1, callIn = [[10, 10], [20, 20]], callOut = [[0, 0], [0, 0]],
       callSamples = 2, callStatus = 0\<rparr>]"

text \<open>
  Data for the preset examples: a store holding a legacy entry for the group
  \<open>Delay\<close>, a table reader that knows this one text, and a plug-in with one parameter,
  whose class info serializes to three bytes.
\<close>

definition legacyStore :: ConfigStore where
  "legacyStore = \<lparr>entries = [(''Delay'', ''Parameters'') \<mapsto> ''gain=5''], accepting = True\<rparr>"

definition exampleLib :: "int Collaborators" where
  "exampleLib = \<lparr>SetParameters = (\<lambda>s. if s = ''gain=5'' then Some [''gain'' \<mapsto> 5] else None),
                 wxBase64Encode = (\<lambda>bytes n. if bytes = [1, 2, 3] \<and> n = 3 then ''AQID'' else []),
                 wxBase64Decode = (\<lambda>s. if s = ''AQID'' then [1, 2, 3] else []),
                 dataCreated = (\<lambda>bytes. True),
                 propertyListCreated = (\<lambda>bytes. True)\<rparr>"

definition gainUnit :: "int PresetUnit" where
  "gainUnit = \<lparr>unitParameters = \<lparr>parameterInfo = [7 \<mapsto> ''gain''], parameterValue = [7 \<mapsto> 0]\<rparr>,
               parameterListInfo = 0, parameterListGet = 0, parameterList = [7],
               classData = (\<lambda>u. Some [1, 2, 3]),
               classInfoStatus = (\<lambda>bytes. 0),
               classInfoState = (\<lambda>bytes. \<lparr>parameterInfo = [7 \<mapsto> ''gain''], parameterValue = [7 \<mapsto> 5]\<rparr>)\<rparr>"

definition kAudioUnitErr_InvalidProperty :: OSStatus where
  "kAudioUnitErr_InvalidProperty = - 10879"

text \<open>The same plug-in in a state where it refuses the query for its parameter list.\<close>

definition refusingUnit :: "int PresetUnit" where
  "refusingUnit = gainUnit\<lparr>parameterListInfo := kAudioUnitErr_InvalidProperty\<rparr>"

text \<open>The same plug-in in a state whose class info serializes to no bytes.\<close>

definition emptyUnit :: "int PresetUnit" where
  "emptyUnit = gainUnit\<lparr>classData := (\<lambda>u. Some [])\<rparr>"

section \<open>Theorems\<close>

subsection \<open>Channel negotiation\<close>

lemma resolveWildcards_spec:
  "resolveWildcards (sint (inChannels ci)) (sint (outChannels ci)) = specResolve ci"
  by (simp add: resolveWildcards_def specResolve_def)

lemma recordPair_eq:
  "recordPair f p =
     (if p = (2, 2) then f\<lparr>haves2s := True\<rparr>
      else if p = (1, 1) then f\<lparr>havem2m := True\<rparr>
      else if p = (1, 2) then f\<lparr>havem2s := True\<rparr>
      else if p = (2, 1) then f\<lparr>haves2m := True\<rparr>
      else if p = (0, 2) then f\<lparr>haven2s := True\<rparr>
      else if p = (0, 1) then f\<lparr>haven2m := True\<rparr>
      else if p = (1, 0) then f\<lparr>havem2n := True\<rparr>
      else if p = (2, 0) then f\<lparr>haves2n := True\<rparr>
      else f)"
  by (cases p) (simp only: recordPair_def prod.case prod.inject)

lemma recordPair_flags:
  "haves2s (recordPair f p) = (haves2s f \<or> p = (2, 2))"
  "havem2m (recordPair f p) = (havem2m f \<or> p = (1, 1))"
  "havem2s (recordPair f p) = (havem2s f \<or> p = (1, 2))"
  "haves2m (recordPair f p) = (haves2m f \<or> p = (2, 1))"
  "haven2m (recordPair f p) = (haven2m f \<or> p = (0, 1))"
  "haven2s (recordPair f p) = (haven2s f \<or> p = (0, 2))"
  "haves2n (recordPair f p) = (haves2n f \<or> p = (2, 0))"
  "havem2n (recordPair f p) = (havem2n f \<or> p = (1, 0))"
  by (simp_all add: recordPair_eq)

lemma foldl_scanInfo_flags:
  "haves2s (foldl scanInfo f tbl) = (haves2s f \<or> (2, 2) \<in> set (map specResolve tbl))"
  "havem2m (foldl scanInfo f tbl) = (havem2m f \<or> (1, 1) \<in> set (map specResolve tbl))"
  "havem2s (foldl scanInfo f tbl) = (havem2s f \<or> (1, 2) \<in> set (map specResolve tbl))"
  "haves2m (foldl scanInfo f tbl) = (haves2m f \<or> (2, 1) \<in> set (map specResolve tbl))"
  "haven2m (foldl scanInfo f tbl) = (haven2m f \<or> (0, 1) \<in> set (map specResolve tbl))"
  "haven2s (foldl scanInfo f tbl) = (haven2s f \<or> (0, 2) \<in> set (map specResolve tbl))"
  "haves2n (foldl scanInfo f tbl) = (haves2n f \<or> (2, 0) \<in> set (map specResolve tbl))"
  "havem2n (foldl scanInfo f tbl) = (havem2n f \<or> (1, 0) \<in> set (map specResolve tbl))"
  by (induction tbl arbitrary: f;
      simp add: scanInfo_def resolveWildcards_spec recordPair_flags disj_ac eq_commute)+

text \<open>
  Claim C1. Channel negotiation applies the fixed priority table: with every wildcard
  (negative) channel field resolved to 2, the chosen pair is the first of (2,2), (1,1),
  (1,2), (2,1), (0,1), (0,2), (2,0), (1,0) that occurs in the plug-in's table; when the
  plug-in reports no table at all (either query fails), or none of the eight patterns
  occurs, the chosen pair is (2,2).
\<close>

theorem GetChannelCounts_priority:
  "GetChannelCounts r = specNegotiate (reportedTable r)"
  by (simp add: GetChannelCounts_def specNegotiate_def reportedTable_def chooseCounts_def
      foldl_scanInfo_flags noFlags_def specPriority_def)

subsection \<open>Four-character codes\<close>

lemma byte_masks:
  "(0xff :: 32 word) = mask 8"
  "(0xff00 :: 32 word) = push_bit 8 (mask 8)"
  "(0xff0000 :: 32 word) = push_bit 16 (mask 8)"
  "(0xff000000 :: 32 word) = push_bit 24 (mask 8)"
  by (simp_all add: mask_eq_exp_minus_1 push_bit_eq_mult)

lemma memoryBytes_rev:
  "memoryBytes (drop_bit 24 (x AND 0xff000000) OR
                drop_bit 8 (x AND 0x00ff0000) OR
                push_bit 8 (x AND 0x0000ff00) OR
                push_bit 24 (x AND 0x000000ff)) = codeBytes (x :: 32 word)"
  unfolding memoryBytes_def codeBytes_def byte_masks
  apply (simp only: list.inject simp_thms)
  apply (intro conjI bit_word_eqI)
  apply (auto simp: bit_simps)
  done

lemma assemble_codeBytes:
  "push_bit 24 (ucast (ucast (drop_bit 24 x) :: 8 word)) OR
   push_bit 16 (ucast (ucast (drop_bit 16 x) :: 8 word)) OR
   push_bit 8 (ucast (ucast (drop_bit 8 x) :: 8 word)) OR
   ucast (ucast x :: 8 word) = (x :: 32 word)"
proof (rule bit_word_eqI)
  fix n :: nat
  assume "n < LENGTH(32)"
  then consider "n < 8" | "8 \<le> n" "n < 16" | "16 \<le> n" "n < 24" | "24 \<le> n" "n < 32"
    by fastforce
  then show "bit (push_bit 24 (ucast (ucast (drop_bit 24 x) :: 8 word)) OR
   push_bit 16 (ucast (ucast (drop_bit 16 x) :: 8 word)) OR
   push_bit 8 (ucast (ucast (drop_bit 8 x) :: 8 word)) OR
   ucast (ucast x :: 8 word) :: 32 word) n = bit x n"
    by cases (auto simp: bit_simps)
qed

lemma split_assembled:
  fixes a b c d :: "8 word"
  defines "w \<equiv> push_bit 24 (ucast a) OR push_bit 16 (ucast b) OR push_bit 8 (ucast c) OR (ucast d :: 32 word)"
  shows "codeBytes w = [a, b, c, d]"
  unfolding codeBytes_def w_def
  apply (simp only: list.inject simp_thms)
  apply (intro conjI bit_word_eqI)
  apply (auto simp: bit_simps dest: bit_imp_le_length)
  done

lemma utf8Decode_single:
  "list_all (\<lambda>b. b < 0x80) bs \<Longrightarrow> utf8Decode bs = Some (map unat bs)"
  by (induction bs) simp_all

lemma ToUTF8_single:
  "list_all (\<lambda>c. c < 0x80) s \<Longrightarrow> ToUTF8 s = map of_nat s"
  by (induction s) (simp_all add: ToUTF8_def utf8Encode_def)

lemma unat_single: "(b :: 8 word) < 0x80 \<Longrightarrow> unat b < 0x80"
  by (simp add: word_less_nat_alt)

lemma of_nat_single: "c < 0x80 \<Longrightarrow> (of_nat c :: 8 word) < 0x80"
  by (simp add: word_less_nat_alt unat_of_nat)

lemma FromOSType_codeBytes: "FromOSType x = FromUTF8 (codeBytes x)"
  by (simp only: FromOSType_def Let_def memoryBytes_rev)

lemma ToOSType_four:
  "ToUTF8 s = [b0, b1, b2, b3] \<Longrightarrow>
   ToOSType s = Some (push_bit 24 (ucast b0) OR push_bit 16 (ucast b1) OR push_bit 8 (ucast b2) OR ucast b3)"
  by (simp add: ToOSType_def bufferAt_def)

lemma length4: "length s = 4 \<Longrightarrow> \<exists>a b c d. s = [a, b, c, d]"
  by (auto simp: numeral_eq_Suc length_Suc_conv)

text \<open>
  Claim C8 as stated fails: a code with a byte that is not well-formed UTF-8 (here the
  leading byte 0xFF) is turned into the empty string by \<open>FromOSType\<close>, and \<open>ToOSType\<close>
  of the empty string reads past the buffer, so the code is not recovered.
\<close>

theorem OSType_roundtrip_counterexample:
  "FromOSType 0xFF616263 = [] \<and> ToOSType (FromOSType 0xFF616263) \<noteq> Some 0xFF616263"
  by (simp add: ToOSType_def FromOSType_def FromUTF8_def memoryBytes_def ToUTF8_def bufferAt_def)

text \<open>
  Claim C8, amended. The two conversions are mutually inverse byte-order inversions on
  single-byte codes: for every 32-bit identifier whose four bytes are all below 0x80,
  \<open>ToOSType (FromOSType x) = x\<close>, and for every 4-character single-byte string \<open>s\<close>,
  \<open>FromOSType (ToOSType s) = s\<close>.
\<close>

theorem OSType_roundtrip_single_byte:
  "(singleByteCode x \<longrightarrow> ToOSType (FromOSType x) = Some x) \<and>
   (length s = 4 \<and> singleByteString s \<longrightarrow>
      (\<exists>y. ToOSType s = Some y \<and> FromOSType y = s))"
proof (intro conjI impI)
  assume a: "singleByteCode x"
  then have d: "utf8Decode (codeBytes x) = Some (map unat (codeBytes x))"
    by (simp add: singleByteCode_def utf8Decode_single)
  have "list_all (\<lambda>c. c < 0x80) (map unat (codeBytes x))"
    using a by (simp add: singleByteCode_def codeBytes_def unat_single)
  then have e: "ToUTF8 (map unat (codeBytes x)) = codeBytes x"
    by (simp add: ToUTF8_single codeBytes_def)
  have "FromOSType x = map unat (codeBytes x)"
    by (simp add: FromOSType_codeBytes FromUTF8_def d)
  then have "ToUTF8 (FromOSType x) = codeBytes x"
    using e by simp
  then show "ToOSType (FromOSType x) = Some x"
    unfolding codeBytes_def by (simp only: ToOSType_four assemble_codeBytes)
next
  assume a: "length s = 4 \<and> singleByteString s"
  then obtain c0 c1 c2 c3 where s: "s = [c0, c1, c2, c3]"
    using length4 by blast
  have l: "c0 < 0x80" "c1 < 0x80" "c2 < 0x80" "c3 < 0x80"
    using a by (simp_all add: s singleByteString_def)
  have u: "ToUTF8 s = [of_nat c0, of_nat c1, of_nat c2, of_nat c3]"
    using a by (simp add: ToUTF8_single singleByteString_def s)
  define y :: "32 word" where "y = push_bit 24 (ucast (of_nat c0 :: 8 word)) OR
     push_bit 16 (ucast (of_nat c1 :: 8 word)) OR push_bit 8 (ucast (of_nat c2 :: 8 word)) OR
     ucast (of_nat c3 :: 8 word)"
  have t: "ToOSType s = Some y"
    unfolding y_def by (rule ToOSType_four [OF u])
  have cb: "codeBytes y = [of_nat c0, of_nat c1, of_nat c2, of_nat c3]"
    unfolding y_def by (rule split_assembled)
  have "utf8Decode (codeBytes y) = Some (map unat (codeBytes y))"
    by (rule utf8Decode_single) (simp add: cb of_nat_single l)
  then have "FromOSType y = s"
    using l by (simp add: FromOSType_codeBytes FromUTF8_def cb s unat_of_nat)
  with t show "\<exists>y. ToOSType s = Some y \<and> FromOSType y = s"
    by blast
qed

theorem OSType_roundtrip_single_byte_witness:
  "singleByteCode 0x61756678 \<and> ToOSType (FromOSType 0x61756678) = Some 0x61756678 \<and>
   length [0x61, 0x75, 0x66, 0x78 :: nat] = 4 \<and> singleByteString [0x61, 0x75, 0x66, 0x78] \<and>
   (\<exists>y. ToOSType [0x61, 0x75, 0x66, 0x78] = Some y \<and> FromOSType y = [0x61, 0x75, 0x66, 0x78])"
  using OSType_roundtrip_single_byte [of "0x61756678" "[0x61, 0x75, 0x66, 0x78]"]
  by (simp add: singleByteCode_def codeBytes_def singleByteString_def)

subsection \<open>The parameter cache\<close>

lemma visit_store:
  "\<exists>u'. visitParameters (storeVisitor c) ids (u, ()) = (u', ()) \<and>
        parameterInfo u' = parameterInfo u \<and>
        (\<forall>X. parameterValue u' X =
           (if X \<in> set ids \<and> parameterInfo u X \<noteq> None \<and> X \<in> dom (parameterValue u)
            then (case c X of Some v \<Rightarrow> Some v | None \<Rightarrow> parameterValue u X)
            else parameterValue u X))"
proof (induction ids arbitrary: u)
  case Nil
  show ?case by simp
next
  case (Cons ID ids)
  define u1 where "u1 = fst (snd (storeVisitor c (makeParameterInfo u ID) ID (u, ())))"
  have step: "storeVisitor c (makeParameterInfo u ID) ID (u, ()) = (True, u1, ())"
    by (simp add: u1_def storeVisitor_def split: option.splits)
  have info: "parameterInfo u1 = parameterInfo u"
    by (simp add: u1_def storeVisitor_def AudioUnitSetParameter_def split: option.splits)
  have val: "parameterValue u1 =
      (if parameterInfo u ID \<noteq> None \<and> ID \<in> dom (parameterValue u)
       then (case c ID of Some v \<Rightarrow> (parameterValue u)(ID \<mapsto> v) | None \<Rightarrow> parameterValue u)
       else parameterValue u)"
    by (auto simp: u1_def storeVisitor_def makeParameterInfo_def AudioUnitSetParameter_def
        split: option.splits)
  from Cons.IH [of u1] obtain u' where
    r: "visitParameters (storeVisitor c) ids (u1, ()) = (u', ())" and
    i: "parameterInfo u' = parameterInfo u1" and
    v: "\<And>X. parameterValue u' X =
           (if X \<in> set ids \<and> parameterInfo u1 X \<noteq> None \<and> X \<in> dom (parameterValue u1)
            then (case c X of Some v \<Rightarrow> Some v | None \<Rightarrow> parameterValue u1 X)
            else parameterValue u1 X)"
    by blast
  have "visitParameters (storeVisitor c) (ID # ids) (u, ()) = (u', ())"
    by (simp add: step r)
  moreover have "parameterInfo u' = parameterInfo u"
    by (simp add: i info)
  moreover have "parameterValue u' X =
           (if X \<in> set (ID # ids) \<and> parameterInfo u X \<noteq> None \<and> X \<in> dom (parameterValue u)
            then (case c X of Some v \<Rightarrow> Some v | None \<Rightarrow> parameterValue u X)
            else parameterValue u X)" for X
    unfolding v info val by (auto split: option.splits)
  ultimately show ?case by blast
qed

lemma visit_fetch:
  "visitParameters fetchVisitor ids (u, s) =
     (u, \<lambda>X. if X \<in> set ids \<and> parameterInfo u X \<noteq> None \<and> X \<in> dom (parameterValue u)
              then parameterValue u X else s X)"
proof (induction ids arbitrary: s)
  case Nil
  show ?case by simp
next
  case (Cons ID ids)
  have step: "fetchVisitor (makeParameterInfo u ID) ID (u, s) =
      (True, u, if parameterInfo u ID \<noteq> None \<and> ID \<in> dom (parameterValue u)
                then s(ID := parameterValue u ID) else s)"
    by (auto simp: fetchVisitor_def makeParameterInfo_def AudioUnitGetParameter_def
        split: option.splits)
  show ?case
    unfolding visitParameters.simps fst_conv step
    by (auto simp: Cons.IH fun_eq_iff)
qed

lemma FetchSettings_value:
  "snd (FetchSettings w c) X =
     (if named w X \<and> X \<in> dom (parameterValue (mUnit w))
      then parameterValue (mUnit w) X else map_option (\<lambda>_. 0) (c X))"
  by (cases "mParameters w")
     (simp_all add: FetchSettings_def ForEachParameter_def visit_fetch named_def declared_def
        ResetValues_def)

lemma StoreSettings_value:
  "parameterValue (mUnit (snd (StoreSettings w c))) ID =
     (if named w ID \<and> ID \<in> dom (parameterValue (mUnit w))
      then (case c ID of Some v \<Rightarrow> Some v | None \<Rightarrow> parameterValue (mUnit w) ID)
      else parameterValue (mUnit w) ID)"
proof (cases "mParameters w")
  case None
  then show ?thesis
    by (simp add: StoreSettings_def ForEachParameter_def named_def declared_def)
next
  case (Some ids)
  obtain u' where
    r: "visitParameters (storeVisitor c) ids (mUnit w, ()) = (u', ())" and
    v: "\<And>X. parameterValue u' X =
           (if X \<in> set ids \<and> parameterInfo (mUnit w) X \<noteq> None \<and> X \<in> dom (parameterValue (mUnit w))
            then (case c X of Some v \<Rightarrow> Some v | None \<Rightarrow> parameterValue (mUnit w) X)
            else parameterValue (mUnit w) X)"
    using visit_store [of c ids "mUnit w"] by blast
  show ?thesis
    by (simp add: StoreSettings_def ForEachParameter_def Some r v named_def declared_def)
qed

lemma StoreSettings_info:
  "parameterInfo (mUnit (snd (StoreSettings w c))) = parameterInfo (mUnit w)"
proof (cases "mParameters w")
  case None
  then show ?thesis
    by (simp add: StoreSettings_def ForEachParameter_def)
next
  case (Some ids)
  obtain u' where
    r: "visitParameters (storeVisitor c) ids (mUnit w, ()) = (u', ())" and
    i: "parameterInfo u' = parameterInfo (mUnit w)"
    using visit_store [of c ids "mUnit w"] by blast
  show ?thesis
    by (simp add: StoreSettings_def ForEachParameter_def Some r i)
qed

lemma StoreSettings_params:
  "mParameters (snd (StoreSettings w c)) = mParameters w"
  by (simp add: StoreSettings_def split: prod.splits)


lemma Fetch_Store_unit:
  "parameterValue (mUnit (snd (StoreSettings w (snd (FetchSettings w c))))) X =
   parameterValue (mUnit w) X"
  by (auto simp: StoreSettings_value FetchSettings_value split: option.splits)

lemma named_Store: "named (snd (StoreSettings w c)) X = named w X"
  by (simp add: named_def declared_def StoreSettings_info StoreSettings_params)

text \<open>
  Claim C5. For every instance state, running \<open>FetchSettings\<close>, then \<open>StoreSettings\<close>
  with the resulting untouched cache, then \<open>FetchSettings\<close> again into that cache yields
  a settings map equal to the one the first \<open>FetchSettings\<close> produced.
\<close>

theorem Fetch_Store_Fetch:
  "snd (FetchSettings (snd (StoreSettings w (snd (FetchSettings w c)))) (snd (FetchSettings w c)))
   = snd (FetchSettings w c)"
proof
  fix X
  show "snd (FetchSettings (snd (StoreSettings w (snd (FetchSettings w c))))
          (snd (FetchSettings w c))) X = snd (FetchSettings w c) X"
    unfolding FetchSettings_value [of "snd (StoreSettings w (snd (FetchSettings w c)))"]
      named_Store dom_def mem_Collect_eq Fetch_Store_unit
    by (auto simp: FetchSettings_value dom_def option.map_comp comp_def)
qed

text \<open>
  Claim C9. \<open>FetchSettings\<close> and \<open>StoreSettings\<close> both return true for every wrapper
  and every cache, whatever queries and sets the plug-in refuses: no per-parameter
  failure, nor the failure of every parameter, shows in their boolean result.
\<close>

theorem Settings_always_true:
  "fst (FetchSettings w c) \<and> fst (StoreSettings w c')"
  by (simp add: FetchSettings_def StoreSettings_def split: prod.splits)

text \<open>
  Claim C7 as stated fails: a declared parameter whose \<open>ParameterInfo\<close> query fails has
  no name, and \<open>StoreSettings\<close> skips it although its id is present in the cache. Here
  the plug-in exposes parameter 1 with value 0 and the cache holds 5 for it; after
  \<open>StoreSettings\<close> the plug-in still holds 0.
\<close>

theorem StoreSettings_unnamed_counterexample:
  "(1 :: AudioUnitParameterID) \<in> set (declared \<lparr>mUnit = \<lparr>parameterInfo = Map.empty, parameterValue = [1 \<mapsto> 0 :: int]\<rparr>, mParameters = Some [1]\<rparr>) \<and>
   [1 \<mapsto> 5 :: int] (1 :: AudioUnitParameterID) = Some 5 \<and>
   parameterValue (mUnit (snd (StoreSettings
       \<lparr>mUnit = \<lparr>parameterInfo = Map.empty, parameterValue = [1 \<mapsto> 0 :: int]\<rparr>, mParameters = Some [1]\<rparr>
       [1 \<mapsto> 5]))) 1 = Some 0"
  by (simp add: declared_def StoreSettings_def ForEachParameter_def storeVisitor_def makeParameterInfo_def)


text \<open>
  Claim C7, amended. For every supplied settings cache, \<open>StoreSettings\<close> pushes into the
  plug-in the value of each declared parameter that has a name (its \<open>ParameterInfo\<close>
  query succeeds) and whose id is present in the cache, so that a plug-in exposing the
  parameter then holds the cache's value; it leaves unmodified in the plug-in every
  parameter whose id is absent from the cache (no implicit reset) and every parameter
  that is not declared or has no name.
\<close>

theorem StoreSettings_merge:
  "(named w ID \<and> c ID = Some v \<and> ID \<in> dom (parameterValue (mUnit w)) \<longrightarrow>
      parameterValue (mUnit (snd (StoreSettings w c))) ID = Some v) \<and>
   (c ID = None \<longrightarrow>
      parameterValue (mUnit (snd (StoreSettings w c))) ID = parameterValue (mUnit w) ID) \<and>
   (\<not> named w ID \<longrightarrow>
      parameterValue (mUnit (snd (StoreSettings w c))) ID = parameterValue (mUnit w) ID)"
  by (simp add: StoreSettings_value)

theorem StoreSettings_merge_witness:
  "named \<lparr>mUnit = \<lparr>parameterInfo = [1 \<mapsto> ''gain'', 2 \<mapsto> ''pan''],
                    parameterValue = [1 \<mapsto> 0, 2 \<mapsto> 7, 3 \<mapsto> 9 :: int]\<rparr>,
           mParameters = Some [1, 2, 3]\<rparr> 1 \<and>
   [1 \<mapsto> 5, 3 \<mapsto> 4 :: int] (1 :: AudioUnitParameterID) = Some 5 \<and>
   (1 :: AudioUnitParameterID) \<in> dom [1 \<mapsto> 0, 2 \<mapsto> 7, 3 \<mapsto> 9 :: int] \<and>
   [1 \<mapsto> 5, 3 \<mapsto> 4 :: int] (2 :: AudioUnitParameterID) = None \<and>
   \<not> named \<lparr>mUnit = \<lparr>parameterInfo = [1 \<mapsto> ''gain'', 2 \<mapsto> ''pan''],
                      parameterValue = [1 \<mapsto> 0, 2 \<mapsto> 7, 3 \<mapsto> 9 :: int]\<rparr>,
             mParameters = Some [1, 2, 3]\<rparr> 3 \<and>
   map (parameterValue (mUnit (snd (StoreSettings
       \<lparr>mUnit = \<lparr>parameterInfo = [1 \<mapsto> ''gain'', 2 \<mapsto> ''pan''],
                  parameterValue = [1 \<mapsto> 0, 2 \<mapsto> 7, 3 \<mapsto> 9 :: int]\<rparr>,
         mParameters = Some [1, 2, 3]\<rparr>
       [1 \<mapsto> 5, 3 \<mapsto> 4])))) [1, 2, 3] = [Some 5, Some 7, Some 9]"
  using
    StoreSettings_merge [of "\<lparr>mUnit = \<lparr>parameterInfo = [1 \<mapsto> ''gain'', 2 \<mapsto> ''pan''],
                  parameterValue = [1 \<mapsto> 0, 2 \<mapsto> 7, 3 \<mapsto> 9 :: int]\<rparr>,
         mParameters = Some [1, 2, 3]\<rparr>" 1 "[1 \<mapsto> 5, 3 \<mapsto> 4]" 5]
    StoreSettings_merge [of "\<lparr>mUnit = \<lparr>parameterInfo = [1 \<mapsto> ''gain'', 2 \<mapsto> ''pan''],
                  parameterValue = [1 \<mapsto> 0, 2 \<mapsto> 7, 3 \<mapsto> 9 :: int]\<rparr>,
         mParameters = Some [1, 2, 3]\<rparr>" 2 "[1 \<mapsto> 5, 3 \<mapsto> 4]" 5]
    StoreSettings_merge [of "\<lparr>mUnit = \<lparr>parameterInfo = [1 \<mapsto> ''gain'', 2 \<mapsto> ''pan''],
                  parameterValue = [1 \<mapsto> 0, 2 \<mapsto> 7, 3 \<mapsto> 9 :: int]\<rparr>,
         mParameters = Some [1, 2, 3]\<rparr>" 3 "[1 \<mapsto> 5, 3 \<mapsto> 4]" 5]
  by (simp add: named_def declared_def)

subsection \<open>Latency\<close>

lemma GetLatency_done:
  "mLatencyDone e \<or> \<not> mUseLatency e \<Longrightarrow>
   GetLatencyCalls productSamples e replies = (replicate (length replies) 0, e)"
  by (induction replies) (auto simp: GetLatency_def)

lemma exactProductSamples_second: "exactProductSamples 1 44100 = 44100"
  by (simp add: exactProductSamples_def)

lemma ProcessInitialize_session:
  "ProcessInitialize e r = Inr (True, e0) \<Longrightarrow>
   \<not> mLatencyDone e0 \<and> mUseLatency e0 = mUseLatency e \<and> mSampleRate e0 = mSampleRate e"
  by (auto simp: ProcessInitialize_def SetRateAndChannels_def Let_def split: if_splits prod.splits bool.splits)

lemma ProcessInitialize_stereo:
  "ProcessInitialize stereoEffect allAccepted = Inr (True, readyStereo)"
  by (simp add: ProcessInitialize_def SetRateAndChannels_def stereoEffect_def allAccepted_def
      readyStereo_def noErr_def numeral_2_eq_2)

text \<open>
  Claim C2 as stated fails: nothing is cached. In a session with the option enabled the
  first call returns the latency, 44100 samples for one second at 44100 Hz, and the
  second call returns 0, not the value of the first.
\<close>

theorem GetLatency_cached_counterexample:
  "ProcessInitialize stereoEffect allAccepted = Inr (True, readyStereo) \<and>
   mUseLatency readyStereo \<and>
   fst (GetLatencyCalls exactProductSamples readyStereo [Some 1, Some 1]) = [44100, 0]"
  by (simp add: ProcessInitialize_stereo)
     (simp add: readyStereo_def stereoEffect_def GetLatency_def exactProductSamples_second)

text \<open>
  Claim C2, amended. For every processing session, begun by a successful
  \<open>ProcessInitialize\<close> on an effect with at least one input and one output channel
  (with none, \<open>ProcessInitialize\<close> writes outside an array of length zero): when the
  UseLatency option is enabled, the first call of \<open>GetLatency\<close> computes the plug-in
  latency in samples, the machine's \<open>sampleCount(latency * mSampleRate)\<close>, and returns
  it, and every later call in the same session returns zero (the latency is reported
  once and not kept); when the option is disabled, every call returns zero.
\<close>

theorem GetLatency_once_per_session:
  "ProcessInitialize e r = Inr (True, e0) \<Longrightarrow>
   fst (GetLatencyCalls productSamples e0 (reply # replies)) =
     (if mUseLatency e
      then productSamples (case reply of None \<Rightarrow> 0 | Some l \<Rightarrow> l) (mSampleRate e)
           # replicate (length replies) 0
      else replicate (Suc (length replies)) 0)"
proof -
  assume "ProcessInitialize e r = Inr (True, e0)"
  from ProcessInitialize_session [OF this]
  have s: "\<not> mLatencyDone e0" "mUseLatency e0 = mUseLatency e" "mSampleRate e0 = mSampleRate e"
    by simp_all
  show ?thesis
  proof (cases "mUseLatency e")
    case True
    have "GetLatency productSamples e0 reply =
      (productSamples (case reply of None \<Rightarrow> 0 | Some l \<Rightarrow> l) (mSampleRate e),
       e0\<lparr>mLatencyDone := True\<rparr>)"
      using s True by (simp add: GetLatency_def)
    then show ?thesis
      using True GetLatency_done [of "e0\<lparr>mLatencyDone := True\<rparr>" productSamples replies] by simp
  next
    case False
    then show ?thesis
      using s GetLatency_done [of e0 productSamples "reply # replies"] by simp
  qed
qed


lemma ProcessInitialize_stereo_disabled:
  "ProcessInitialize (stereoEffect\<lparr>mUseLatency := False\<rparr>) allAccepted =
     Inr (True, readyStereo\<lparr>mUseLatency := False\<rparr>)"
  by (simp add: ProcessInitialize_def SetRateAndChannels_def stereoEffect_def allAccepted_def
      readyStereo_def noErr_def numeral_2_eq_2)

theorem GetLatency_once_per_session_witness:
  "ProcessInitialize stereoEffect allAccepted = Inr (True, readyStereo) \<and>
   fst (GetLatencyCalls exactProductSamples readyStereo [Some 1, Some 1, Some 2]) = [44100, 0, 0] \<and>
   ProcessInitialize (stereoEffect\<lparr>mUseLatency := False\<rparr>) allAccepted =
     Inr (True, readyStereo\<lparr>mUseLatency := False\<rparr>) \<and>
   fst (GetLatencyCalls exactProductSamples (readyStereo\<lparr>mUseLatency := False\<rparr>)
          [Some 1, Some 1, Some 2]) = [0, 0, 0]"
  using
    GetLatency_once_per_session [of stereoEffect allAccepted readyStereo exactProductSamples
      "Some 1" "[Some 1, Some 2]"]
    GetLatency_once_per_session [of "stereoEffect\<lparr>mUseLatency := False\<rparr>" allAccepted
      "readyStereo\<lparr>mUseLatency := False\<rparr>" exactProductSamples "Some 1" "[Some 1, Some 2]"]
  by (simp add: ProcessInitialize_stereo ProcessInitialize_stereo_disabled)
     (simp add: stereoEffect_def exactProductSamples_second)

subsection \<open>Block processing\<close>

lemma setBuffers_ok:
  "\<forall>i \<in> set idx. i < length bufs \<and> i < length block \<Longrightarrow>
   \<exists>bufs'. forEach (setBuffer n block) idx bufs = Inr bufs' \<and> length bufs' = length bufs"
proof (induction idx arbitrary: bufs)
  case Nil
  show ?case by simp
next
  case (Cons i idx)
  define b1 where "b1 = bufs[i := \<lparr>mNumberChannels = 1, mData = block ! i,
                                    mDataByteSize = of_nat (4 * n)\<rparr>]"
  have s: "setBuffer n block i bufs = Inr b1"
    using Cons.prems by (simp add: setBuffer_def b1_def)
  have "\<forall>j \<in> set idx. j < length b1 \<and> j < length block"
    using Cons.prems by (simp add: b1_def)
  from Cons.IH [OF this] obtain bufs' where
    "forEach (setBuffer n block) idx b1 = Inr bufs'" "length bufs' = length b1"
    by blast
  then show ?case
    by (simp add: s b1_def)
qed

text \<open>
  Claim C6. For every call \<open>ProcessBlock(inputs, outputs, frameCount)\<close> on an effect
  whose buffer lists are allocated for its channel counts, with blocks that hold a
  pointer for each channel, the call returns normally and its value is the number of
  frames produced: \<open>frameCount\<close> when the render succeeds and 0 when it fails. The
  function has no path that throws; the only way not to return a count is the fault of
  an access outside an array, which the two conditions exclude.
\<close>

theorem ProcessBlock_frames:
  "allocated e \<Longrightarrow> blocksFit e inBlock outBlock \<Longrightarrow>
   \<exists>e'. ProcessBlock e status inBlock outBlock blockLen =
           Inr (if status = noErr then blockLen else 0, e')"
proof -
  assume a: "allocated e" and b: "blocksFit e inBlock outBlock"
  obtain ins where i: "forEach (setBuffer blockLen inBlock) [0..<mAudioIns e] (mInputList e) = Inr ins"
    using setBuffers_ok [of "[0..<mAudioIns e]" "mInputList e" inBlock blockLen] a b
    by (auto simp: allocated_def blocksFit_def)
  obtain outs where out: "forEach (setBuffer blockLen outBlock) [0..<mAudioOuts e] (mOutputList e) = Inr outs"
    using setBuffers_ok [of "[0..<mAudioOuts e]" "mOutputList e" outBlock blockLen] a b
    by (auto simp: allocated_def blocksFit_def)
  show ?thesis
    by (simp add: ProcessBlock_def i out Let_def)
qed

theorem ProcessBlock_frames_witness:
  "allocated readyStereo \<and> blocksFit readyStereo [[1, 2], [3, 4]] [[0, 0], [0, 0]] \<and>
   (\<exists>e'. ProcessBlock readyStereo noErr [[1, 2], [3, 4]] [[0, 0], [0, 0]] 2 = Inr (2, e')) \<and>
   (\<exists>e'. ProcessBlock readyStereo (- 50) [[1, 2], [3, 4]] [[0, 0], [0, 0]] 2 = Inr (0, e'))"
  using ProcessBlock_frames [of readyStereo "[[1, 2], [3, 4]]" "[[0, 0], [0, 0]]" noErr 2]
    ProcessBlock_frames [of readyStereo "[[1, 2], [3, 4]]" "[[0, 0], [0, 0]]" "- 50" 2]
  by (simp add: allocated_def blocksFit_def readyStereo_def stereoEffect_def noErr_def)


subsection \<open>The realtime cycle\<close>

lemma forEach_append:
  "forEach body (xs @ ys) st =
     (case forEach body xs st of Inl f \<Rightarrow> Inl f | Inr st' \<Rightarrow> forEach body ys st')"
  by (induction xs arbitrary: st) (auto split: sum.splits)

lemma forEach_upt_Suc:
  "forEach body [0..<Suc n] st =
     (case forEach body [0..<n] st of Inl f \<Rightarrow> Inl f | Inr st' \<Rightarrow> body n st')"
  by (simp add: forEach_append split: sum.splits)

lemma addChannel_row:
  assumes "c < length m" "c < length inb" "n \<le> length (m ! c)" "n \<le> length (inb ! c)"
  shows "addChannel inb n c m =
     Inr (m[c := map (\<lambda>s. if s < n then m ! c ! s + inb ! c ! s else m ! c ! s) [0..<length (m ! c)]])"
  using assms(3,4) unfolding addChannel_def
proof (induction n)
  case 0
  have "map (\<lambda>s. m ! c ! s) [0..<length (m ! c)] = m ! c"
    by (simp add: map_nth)
  then show ?case by simp
next
  case (Suc n)
  let ?row = "\<lambda>k. map (\<lambda>s. if s < k then m ! c ! s + inb ! c ! s else m ! c ! s) [0..<length (m ! c)]"
  have ih: "forEach (addSample inb c) [0..<n] m = Inr (m[c := ?row n])"
    using Suc by simp
  have step: "addSample inb c n (m[c := ?row n]) = Inr (m[c := (?row n)[n := m ! c ! n + inb ! c ! n]])"
    using Suc.prems assms(1,2) by (simp add: addSample_def)
  have "(?row n)[n := m ! c ! n + inb ! c ! n] = ?row (Suc n)"
    using Suc.prems by (intro nth_equalityI) (auto simp: nth_list_update less_Suc_eq)
  then show ?case
    by (simp only: forEach_upt_Suc ih step sum.case)
qed

lemma addChannels_matrix:
  assumes "a \<le> length m" "a \<le> length inb"
    "\<forall>c < a. n \<le> length (m ! c) \<and> n \<le> length (inb ! c)"
  shows "forEach (addChannel inb n) [0..<a] m =
     Inr (map (\<lambda>c. if c < a
                    then map (\<lambda>s. if s < n then m ! c ! s + inb ! c ! s else m ! c ! s) [0..<length (m ! c)]
                    else m ! c) [0..<length m])"
  using assms
proof (induction a)
  case 0
  show ?case by (simp add: map_nth)
next
  case (Suc a)
  let ?row = "\<lambda>c. map (\<lambda>s. if s < n then m ! c ! s + inb ! c ! s else m ! c ! s) [0..<length (m ! c)]"
  let ?mat = "\<lambda>k. map (\<lambda>c. if c < k then ?row c else m ! c) [0..<length m]"
  have ih: "forEach (addChannel inb n) [0..<a] m = Inr (?mat a)"
    using Suc by simp
  have at: "?mat a ! a = m ! a"
    using Suc.prems by simp
  have step: "addChannel inb n a (?mat a) = Inr ((?mat a)[a := ?row a])"
    using addChannel_row [of a "?mat a" inb n] Suc.prems unfolding at by simp
  have "(?mat a)[a := ?row a] = ?mat (Suc a)"
    using Suc.prems by (intro nth_equalityI) (auto simp: nth_list_update less_Suc_eq)
  then show ?case
    by (simp only: forEach_upt_Suc ih step sum.case)
qed

lemma zeroChannels_matrix:
  assumes "a \<le> length m" "\<forall>c < a. b \<le> length (m ! c)"
  shows "forEach (zeroChannel b) [0..<a] m =
     Inr (map (\<lambda>c. if c < a then replicate b 0 @ drop b (m ! c) else m ! c) [0..<length m])"
  using assms
proof (induction a)
  case 0
  show ?case by (simp add: map_nth)
next
  case (Suc a)
  let ?mat = "\<lambda>k. map (\<lambda>c. if c < k then replicate b 0 @ drop b (m ! c) else m ! c) [0..<length m]"
  have ih: "forEach (zeroChannel b) [0..<a] m = Inr (?mat a)"
    using Suc by simp
  have step: "zeroChannel b a (?mat a) = Inr ((?mat a)[a := replicate b 0 @ drop b (m ! a)])"
    using Suc.prems by (simp add: zeroChannel_def)
  have "(?mat a)[a := replicate b 0 @ drop b (m ! a)] = ?mat (Suc a)"
    using Suc.prems by (intro nth_equalityI) (auto simp: nth_list_update less_Suc_eq)
  then show ?case
    by (simp only: forEach_upt_Suc ih step sum.case)
qed

lemma setBuffers_list:
  assumes "a \<le> length bufs" "a \<le> length block"
  shows "forEach (setBuffer n block) [0..<a] bufs =
     Inr (map (\<lambda>i. if i < a
                    then \<lparr>mNumberChannels = 1, mData = block ! i, mDataByteSize = of_nat (4 * n)\<rparr>
                    else bufs ! i) [0..<length bufs])"
  using assms
proof (induction a)
  case 0
  show ?case by (simp add: map_nth)
next
  case (Suc a)
  let ?l = "\<lambda>k. map (\<lambda>i. if i < k
                    then \<lparr>mNumberChannels = 1, mData = block ! i, mDataByteSize = of_nat (4 * n)\<rparr>
                    else bufs ! i) [0..<length bufs]"
  have ih: "forEach (setBuffer n block) [0..<a] bufs = Inr (?l a)"
    using Suc by simp
  have step: "setBuffer n block a (?l a) =
      Inr ((?l a)[a := \<lparr>mNumberChannels = 1, mData = block ! a, mDataByteSize = of_nat (4 * n)\<rparr>])"
    using Suc.prems by (simp add: setBuffer_def)
  have "(?l a)[a := \<lparr>mNumberChannels = 1, mData = block ! a, mDataByteSize = of_nat (4 * n)\<rparr>] = ?l (Suc a)"
    using Suc.prems by (intro nth_equalityI) (auto simp: nth_list_update less_Suc_eq)
  then show ?case
    by (simp only: forEach_upt_Suc ih step sum.case)
qed


lemma ProcessBlock_result:
  assumes "allocated e" "blocksFit e inB outB"
  shows "ProcessBlock e st inB outB n =
     Inr (if st = noErr then n else 0,
          e\<lparr>mInputList := map (\<lambda>i. \<lparr>mNumberChannels = 1, mData = inB ! i,
                                        mDataByteSize = of_nat (4 * n)\<rparr>) [0..<mAudioIns e],
            mOutputList := map (\<lambda>i. \<lparr>mNumberChannels = 1, mData = outB ! i,
                                         mDataByteSize = of_nat (4 * n)\<rparr>) [0..<mAudioOuts e],
            mSampleTime := (if st = noErr then mSampleTime e + real n else mSampleTime e)\<rparr>)"
proof -
  have i: "forEach (setBuffer n inB) [0..<mAudioIns e] (mInputList e) =
      Inr (map (\<lambda>i. \<lparr>mNumberChannels = 1, mData = inB ! i,
                       mDataByteSize = of_nat (4 * n)\<rparr>) [0..<mAudioIns e])"
    using setBuffers_list [of "mAudioIns e" "mInputList e" inB n] assms
    by (simp add: allocated_def blocksFit_def)
  have out: "forEach (setBuffer n outB) [0..<mAudioOuts e] (mOutputList e) =
      Inr (map (\<lambda>i. \<lparr>mNumberChannels = 1, mData = outB ! i,
                       mDataByteSize = of_nat (4 * n)\<rparr>) [0..<mAudioOuts e])"
    using setBuffers_list [of "mAudioOuts e" "mOutputList e" outB n] assms
    by (simp add: allocated_def blocksFit_def)
  show ?thesis
    by (simp add: ProcessBlock_def i out Let_def)
qed

lemma ProcessBlock_shape:
  assumes "allocated e" "blocksFit e inB outB" "ProcessBlock e st inB outB n = Inr (k, e')"
  shows "channelShape e' = channelShape e"
  using assms(3) assms(1) unfolding ProcessBlock_result [OF assms(1,2)]
  by (auto simp: channelShape_def allocated_def)

lemma shape_allocated:
  "channelShape e' = channelShape e \<Longrightarrow>
   allocated e' = allocated e \<and> blocksFit e' inB outB = blocksFit e inB outB"
  by (simp add: channelShape_def allocated_def blocksFit_def)

lemma callFits_shape:
  assumes "mAudioIns e' = mAudioIns e" "mBlockSize e' = mBlockSize e"
    "map channelShape (mSlaves e') = map channelShape (mSlaves e)"
  shows "callFits e' c = callFits e c"
proof -
  have l: "length (mSlaves e') = length (mSlaves e)"
    using assms(3) by (rule map_eq_imp_length_eq)
  have "channelShape (mSlaves e' ! i) = channelShape (mSlaves e ! i)" if "i < length (mSlaves e)" for i
    using assms(3) that l by (metis nth_map)
  then show ?thesis
    unfolding callFits_def assms(1,2) l
    using shape_allocated by (metis (no_types, lifting))
qed


lemma RealtimeProcess_step:
  assumes m: "masterAllocated e" and f: "callFits e c"
  shows "\<exists>k e'. RealtimeProcess e (callStatus c) (callGroup c) (callIn c) (callOut c) (callSamples c)
            = Inr (k, e') \<and>
          masterAllocated e' \<and> mAudioIns e' = mAudioIns e \<and> mBlockSize e' = mBlockSize e \<and>
          map channelShape (mSlaves e') = map channelShape (mSlaves e) \<and>
          mNumSamples e' = max (callSamples c) (mNumSamples e) \<and>
          (\<forall>ch < mAudioIns e. \<forall>s < mBlockSize e.
             mMasterIn e' ! ch ! s =
               (if s < callSamples c then mMasterIn e ! ch ! s + callIn c ! ch ! s
                else mMasterIn e ! ch ! s))"
proof -
  let ?n = "callSamples c" and ?inb = "callIn c" and ?g = "nat (callGroup c)"
  let ?M = "map (\<lambda>ch. if ch < mAudioIns e
                    then map (\<lambda>s. if s < ?n then mMasterIn e ! ch ! s + ?inb ! ch ! s
                                   else mMasterIn e ! ch ! s) [0..<length (mMasterIn e ! ch)]
                    else mMasterIn e ! ch) [0..<length (mMasterIn e)]"
  have len: "length (mMasterIn e) = mAudioIns e"
    and rows: "\<And>ch. ch < mAudioIns e \<Longrightarrow> length (mMasterIn e ! ch) = mBlockSize e"
    using m by (auto simp: masterAllocated_def list_all_length)
  have inrows: "\<And>ch. ch < mAudioIns e \<Longrightarrow> ?n \<le> length (?inb ! ch)"
    using f by (auto simp: callFits_def list_all_length)
  have acc: "forEach (addChannel ?inb ?n) [0..<mAudioIns e] (mMasterIn e) = Inr ?M"
    using f len rows inrows
    by (intro addChannels_matrix) (auto simp: callFits_def)
  have g: "0 \<le> callGroup c" "?g < length (mSlaves e)"
    and sl: "allocated (mSlaves e ! ?g)" "blocksFit (mSlaves e ! ?g) ?inb (callOut c)"
    using f by (auto simp: callFits_def)
  obtain k sl' where pb: "ProcessBlock (mSlaves e ! ?g) (callStatus c) ?inb (callOut c) ?n = Inr (k, sl')"
    using ProcessBlock_result [OF sl] by blast
  have shp: "channelShape sl' = channelShape (mSlaves e ! ?g)"
    using ProcessBlock_shape [OF sl pb] .
  define e' where "e' = e\<lparr>mMasterIn := ?M, mNumSamples := max ?n (mNumSamples e),
                           mSlaves := (mSlaves e)[?g := sl']\<rparr>"
  have run: "RealtimeProcess e (callStatus c) (callGroup c) ?inb (callOut c) ?n = Inr (k, e')"
    using g by (simp add: RealtimeProcess_def acc Let_def pb e'_def)
  have shapes: "map channelShape (mSlaves e') = map channelShape (mSlaves e)"
    using g shp by (simp add: e'_def map_update list_update_same_conv)
  have alloc: "masterAllocated e'"
    using m len rows by (auto simp: masterAllocated_def allocated_def e'_def list_all_length)
  have vals: "mMasterIn e' ! ch ! s =
      (if s < ?n then mMasterIn e ! ch ! s + ?inb ! ch ! s else mMasterIn e ! ch ! s)"
    if "ch < mAudioIns e" "s < mBlockSize e" for ch s
    using that len rows by (simp add: e'_def)
  show ?thesis
    using run alloc shapes vals by (intro exI [of _ k] exI [of _ e']) (simp add: e'_def)
qed

lemma RealtimeProcessCalls_sum:
  assumes "masterAllocated e" "list_all (callFits e) calls"
  shows "\<exists>e'. RealtimeProcessCalls e calls = Inr e' \<and>
          masterAllocated e' \<and> mAudioIns e' = mAudioIns e \<and> mBlockSize e' = mBlockSize e \<and>
          mNumSamples e' = fold max (map callSamples calls) (mNumSamples e) \<and>
          (\<forall>ch < mAudioIns e. \<forall>s < mBlockSize e.
             mMasterIn e' ! ch ! s = foldl (+) (mMasterIn e ! ch ! s) (samplesAt calls ch s))"
  using assms
proof (induction calls arbitrary: e)
  case Nil
  then show ?case by (simp add: samplesAt_def)
next
  case (Cons c calls)
  from Cons.prems have f: "callFits e c" and rest: "list_all (callFits e) calls"
    by simp_all
  from RealtimeProcess_step [OF Cons.prems(1) f] obtain k e1 where
    run: "RealtimeProcess e (callStatus c) (callGroup c) (callIn c) (callOut c) (callSamples c)
            = Inr (k, e1)" and
    a1: "masterAllocated e1" and i1: "mAudioIns e1 = mAudioIns e" and b1: "mBlockSize e1 = mBlockSize e" and
    s1: "map channelShape (mSlaves e1) = map channelShape (mSlaves e)" and
    n1: "mNumSamples e1 = max (callSamples c) (mNumSamples e)" and
    v1: "\<And>ch s. ch < mAudioIns e \<Longrightarrow> s < mBlockSize e \<Longrightarrow>
           mMasterIn e1 ! ch ! s =
             (if s < callSamples c then mMasterIn e ! ch ! s + callIn c ! ch ! s
              else mMasterIn e ! ch ! s)"
    by blast
  have "list_all (callFits e1) calls"
    using rest callFits_shape [OF i1 b1 s1] by (simp add: list_all_iff)
  from Cons.IH [OF a1 this] obtain e' where
    r: "RealtimeProcessCalls e1 calls = Inr e'" and
    a: "masterAllocated e'" and i: "mAudioIns e' = mAudioIns e1" and b: "mBlockSize e' = mBlockSize e1" and
    n: "mNumSamples e' = fold max (map callSamples calls) (mNumSamples e1)" and
    v: "\<And>ch s. ch < mAudioIns e1 \<Longrightarrow> s < mBlockSize e1 \<Longrightarrow>
           mMasterIn e' ! ch ! s = foldl (+) (mMasterIn e1 ! ch ! s) (samplesAt calls ch s)"
    by blast
  have "RealtimeProcessCalls e (c # calls) = Inr e'"
    by (simp add: run r)
  moreover have "mNumSamples e' = fold max (map callSamples (c # calls)) (mNumSamples e)"
    by (simp add: n n1)
  moreover have "mMasterIn e' ! ch ! s = foldl (+) (mMasterIn e ! ch ! s) (samplesAt (c # calls) ch s)"
    if "ch < mAudioIns e" "s < mBlockSize e" for ch s
    using v [of ch s] v1 [of ch s] that i1 b1 by (simp add: samplesAt_def)
  ultimately show ?case
    using a i b i1 b1 by auto
qed

lemma RealtimeProcessStart_zero:
  assumes "masterAllocated e"
  shows "RealtimeProcessStart e =
     Inr (True, e\<lparr>mMasterIn := replicate (mAudioIns e) (replicate (mBlockSize e) 0),
                   mNumSamples := 0\<rparr>)"
proof -
  have len: "length (mMasterIn e) = mAudioIns e"
    and rows: "\<And>ch. ch < mAudioIns e \<Longrightarrow> length (mMasterIn e ! ch) = mBlockSize e"
    using assms by (auto simp: masterAllocated_def list_all_length)
  have "forEach (zeroChannel (mBlockSize e)) [0..<mAudioIns e] (mMasterIn e) =
      Inr (map (\<lambda>c. if c < mAudioIns e
                     then replicate (mBlockSize e) 0 @ drop (mBlockSize e) (mMasterIn e ! c)
                     else mMasterIn e ! c) [0..<length (mMasterIn e)])"
    using len rows by (intro zeroChannels_matrix) auto
  moreover have "map (\<lambda>c. if c < mAudioIns e
                     then replicate (mBlockSize e) 0 @ drop (mBlockSize e) (mMasterIn e ! c)
                     else mMasterIn e ! c) [0..<length (mMasterIn e)] =
      replicate (mAudioIns e) (replicate (mBlockSize e) 0)"
    using len rows by (intro nth_equalityI) auto
  ultimately show ?thesis
    by (simp add: RealtimeProcessStart_def)
qed


text \<open>
  Claim C3. For every audio cycle that begins with \<open>RealtimeProcessStart\<close> and
  contains any sequence of valid \<open>RealtimeProcess(group, in, out, n)\<close> calls, the cycle
  runs without fault and \<open>RealtimeProcessEnd\<close> hands the master's plug-in, for each of
  the master's \<open>mAudioIns\<close> input channels, the summing buffer of that channel, of which
  every sample is the sum, over the calls in their order and starting from the zero that
  \<open>RealtimeProcessStart\<close> wrote, of the calls' input samples at that channel and index;
  the master pass runs over the largest frame count \<open>n\<close> of the cycle (0 when there was
  no call), the counter having been cleared by \<open>RealtimeProcessStart\<close>.
\<close>

theorem RealtimeProcessEnd_sums:
  assumes "masterAllocated e" "list_all (callFits e) calls"
  shows "\<exists>e' e''. audioCycle e calls = Inr e' \<and>
           RealtimeProcessEnd e' status = Inr (True, e'') \<and>
           mNumSamples e' = Max (insert 0 (set (map callSamples calls))) \<and>
           mMasterIn e' =
             map (\<lambda>ch. map (\<lambda>s. foldl (+) 0 (samplesAt calls ch s)) [0..<mBlockSize e])
               [0..<mAudioIns e] \<and>
           mInputList e'' =
             map (\<lambda>ch. \<lparr>mNumberChannels = 1, mData = mMasterIn e' ! ch,
                          mDataByteSize = of_nat (4 * mNumSamples e')\<rparr>) [0..<mAudioIns e]"
proof -
  define e0 where "e0 = e\<lparr>mMasterIn := replicate (mAudioIns e) (replicate (mBlockSize e) 0),
                           mNumSamples := 0\<rparr>"
  have start: "RealtimeProcessStart e = Inr (True, e0)"
    unfolding e0_def by (rule RealtimeProcessStart_zero [OF assms(1)])
  have a0: "masterAllocated e0"
    using assms(1) by (simp add: e0_def masterAllocated_def allocated_def list_all_length)
  have "callFits e0 c = callFits e c" for c
    by (rule callFits_shape) (simp_all add: e0_def)
  then have f0: "list_all (callFits e0) calls"
    using assms(2) by (simp add: list_all_iff)
  from RealtimeProcessCalls_sum [OF a0 f0] obtain e' where
    r: "RealtimeProcessCalls e0 calls = Inr e'" and
    a: "masterAllocated e'" and i: "mAudioIns e' = mAudioIns e" and b: "mBlockSize e' = mBlockSize e" and
    n: "mNumSamples e' = fold max (map callSamples calls) 0" and
    v: "\<And>ch s. ch < mAudioIns e \<Longrightarrow> s < mBlockSize e \<Longrightarrow>
           mMasterIn e' ! ch ! s = foldl (+) 0 (samplesAt calls ch s)"
    by (auto simp: e0_def)
  have cyc: "audioCycle e calls = Inr e'"
    by (simp add: audioCycle_def start r)
  have mx: "mNumSamples e' = Max (insert 0 (set (map callSamples calls)))"
    using Max.set_eq_fold [of 0 "map callSamples calls"] n by simp
  have len: "length (mMasterIn e') = mAudioIns e"
    and rows: "\<And>ch. ch < mAudioIns e \<Longrightarrow> length (mMasterIn e' ! ch) = mBlockSize e"
    and outs: "length (mMasterOut e') = mAudioOuts e'"
    and al: "allocated e'"
    using a i b by (auto simp: masterAllocated_def list_all_length)
  have mat: "mMasterIn e' =
      map (\<lambda>ch. map (\<lambda>s. foldl (+) 0 (samplesAt calls ch s)) [0..<mBlockSize e]) [0..<mAudioIns e]"
  proof (rule nth_equalityI)
    show "length (mMasterIn e') = length (map (\<lambda>ch. map (\<lambda>s. foldl (+) 0 (samplesAt calls ch s))
        [0..<mBlockSize e]) [0..<mAudioIns e])"
      by (simp add: len)
  next
    fix ch assume "ch < length (mMasterIn e')"
    then have c: "ch < mAudioIns e" by (simp add: len)
    have "mMasterIn e' ! ch = map (\<lambda>s. foldl (+) 0 (samplesAt calls ch s)) [0..<mBlockSize e]"
      using rows [OF c] v [OF c] by (intro nth_equalityI) simp_all
    then show "mMasterIn e' ! ch = map (\<lambda>ch. map (\<lambda>s. foldl (+) 0 (samplesAt calls ch s))
        [0..<mBlockSize e]) [0..<mAudioIns e] ! ch"
      using c by simp
  qed
  have fit: "blocksFit e' (mMasterIn e') (mMasterOut e')"
    using len outs i by (simp add: blocksFit_def)
  define e'' where "e'' = e'\<lparr>mInputList := map (\<lambda>i. \<lparr>mNumberChannels = 1, mData = mMasterIn e' ! i,
                                        mDataByteSize = of_nat (4 * mNumSamples e')\<rparr>) [0..<mAudioIns e'],
            mOutputList := map (\<lambda>i. \<lparr>mNumberChannels = 1, mData = mMasterOut e' ! i,
                                         mDataByteSize = of_nat (4 * mNumSamples e')\<rparr>) [0..<mAudioOuts e'],
            mSampleTime := (if status = noErr then mSampleTime e' + real (mNumSamples e')
                            else mSampleTime e')\<rparr>"
  have fin: "RealtimeProcessEnd e' status = Inr (True, e'')"
    by (simp add: RealtimeProcessEnd_def ProcessBlock_result [OF al fit] e''_def)
  have "mInputList e'' =
      map (\<lambda>ch. \<lparr>mNumberChannels = 1, mData = mMasterIn e' ! ch,
                   mDataByteSize = of_nat (4 * mNumSamples e')\<rparr>) [0..<mAudioIns e]"
    by (simp add: e''_def i)
  with cyc fin mx mat show ?thesis
    by blast
qed

theorem RealtimeProcessEnd_sums_witness:
  "masterAllocated stereoMaster \<and> list_all (callFits stereoMaster) twoCalls \<and>
   (\<exists>e' e''. audioCycle stereoMaster twoCalls = Inr e' \<and>
      RealtimeProcessEnd e' noErr = Inr (True, e'') \<and>
      mNumSamples e' = 3 \<and>
      mMasterIn e' = [[11, 11, 1, 0], [22, 22, 2, 0]] \<and>
      map mData (mInputList e'') = [[11, 11, 1, 0], [22, 22, 2, 0]] \<and>
      map mDataByteSize (mInputList e'') = [12, 12])"
proof -
  have h: "masterAllocated stereoMaster" "list_all (callFits stereoMaster) twoCalls"
    by (simp_all add: masterAllocated_def allocated_def callFits_def blocksFit_def stereoMaster_def
      readyStereo_def stereoEffect_def stereoSlave_def twoCalls_def)
  have s: "mAudioIns stereoMaster = 2" "mBlockSize stereoMaster = 4"
    by (simp_all add: stereoMaster_def readyStereo_def stereoEffect_def)
  have u: "[0..<4] = [0, 1, 2, 3]" "[0..<2] = [0, 1]"
    by (simp_all add: upt_rec)
  have m: "map (\<lambda>ch. map (\<lambda>s. foldl (+) 0 (samplesAt twoCalls ch s)) [0..<4]) [0..<2]
      = [[11, 11, 1, 0], [22, 22, 2, 0 :: int]]"
    unfolding u by (simp add: samplesAt_def twoCalls_def)
  have x: "Max (insert 0 (set (map callSamples twoCalls))) = 3"
    by (simp add: twoCalls_def)
  from RealtimeProcessEnd_sums [OF h, of noErr] show ?thesis
    unfolding s m x using h by (auto simp: u)
qed


subsection \<open>Presets\<close>

lemma length31:
  assumes "length bytes < 2 ^ 31"
  shows "((of_nat (length bytes) :: 32 word) = 0) = (bytes = [])"
    and "unat (scast (of_nat (length bytes) :: 32 word) :: 64 word) = length bytes"
proof -
  have u: "unat (of_nat (length bytes) :: 32 word) = length bytes"
    using assms by (simp add: unat_of_nat)
  have "(of_nat (length bytes) :: 32 word) = 0 \<Longrightarrow> length bytes = 0"
    using u by (metis unat_0)
  then show "((of_nat (length bytes) :: 32 word) = 0) = (bytes = [])"
    by auto
  have s: "sint (of_nat (length bytes) :: 32 word) = int (length bytes)"
    using assms by (simp add: signed_of_nat signed_take_bit_int_eq_self)
  have "(scast (of_nat (length bytes) :: 32 word) :: 64 word)
      = of_int (sint (of_nat (length bytes) :: 32 word))"
    by (simp add: of_int_sint)
  also have "\<dots> = of_nat (length bytes)"
    by (simp add: s)
  finally show "unat (scast (of_nat (length bytes) :: 32 word) :: 64 word) = length bytes"
    using assms by (simp add: unat_of_nat)
qed

lemma SavePreset_data:
  assumes "classData unit (unitParameters unit) = Some bytes" "bytes \<noteq> []"
    "length bytes < 2 ^ 31" "accepting host"
  shows "SavePreset lib host unit grp =
     (True, host\<lparr>entries := (entries host)((grp, PRESET_KEY) \<mapsto>
                       wxBase64Encode lib bytes (length bytes))\<rparr>)"
proof -
  have ne: "(of_nat (length bytes) :: 32 word) \<noteq> 0"
    using length31(1) [OF assms(3)] assms(2) by simp
  have ct: "unat (scast (of_nat (length bytes) :: 32 word) :: 64 word) = length bytes"
    by (rule length31(2) [OF assms(3)])
  show ?thesis
    using assms(1,4) ne
    by (simp add: SavePreset_def Let_def ct SetPrivateConfig_def del: of_nat_eq_0_iff)
qed

lemma LoadPreset_no_legacy:
  "entries host (grp, ''Parameters'') = None \<Longrightarrow>
   LoadPreset lib host u s grp = LoadPresetBlob lib host u s grp"
  by (simp add: LoadPreset_def GetPrivateConfig_def)

text \<open>
  Claim C10. When the plug-in's serialized class-state data has zero length,
  \<open>SavePreset\<close> writes nothing to the configuration store (the \<open>Data\<close> key of the
  preset group is left as it was) and still returns true.
\<close>

theorem SavePreset_empty:
  "classData unit (unitParameters unit) = Some [] \<Longrightarrow>
   SavePreset lib host unit grp = (True, host)"
  by (simp add: SavePreset_def)

theorem SavePreset_empty_witness:
  "classData emptyUnit (unitParameters emptyUnit) = Some [] \<and>
   SavePreset exampleLib legacyStore emptyUnit ''Delay'' = (True, legacyStore) \<and>
   entries legacyStore (''Delay'', PRESET_KEY) = None"
  using SavePreset_empty [of emptyUnit exampleLib legacyStore "''Delay''"]
  by (simp add: emptyUnit_def gainUnit_def legacyStore_def PRESET_KEY_def)



text \<open>
  Claim C4 as stated fails: the legacy entry is removed only when every step of the
  migration succeeds. Here the plug-in refuses the query for its parameter list, so
  \<open>SetAutomationParameters\<close> returns false: the load returns true, the store is as it
  was, the legacy entry is still there and the next load finds it again.
\<close>

theorem LoadPreset_legacy_counterexample:
  "legacyFound legacyStore ''Delay'' \<and>
   LoadPreset exampleLib legacyStore refusingUnit [] ''Delay'' = (True, legacyStore, refusingUnit, []) \<and>
   entries legacyStore (''Delay'', ''Parameters'') = Some ''gain=5'' \<and>
   legacyFound (fst (snd (LoadPreset exampleLib legacyStore refusingUnit [] ''Delay''))) ''Delay''"
  by (simp add: legacyFound_def GetPrivateConfig_def LoadPreset_def legacyStore_def exampleLib_def
      SetAutomationParameters_def refusingUnit_def gainUnit_def noErr_def
      kAudioUnitErr_InvalidProperty_def)

text \<open>
  Claim C4, amended. Legacy-preset migration in \<open>LoadPreset\<close> is one-way and at most
  once where its steps succeed: for every configuration group in which a legacy
  \<open>Parameters\<close> entry is found, when \<open>SetParameters\<close> reads the entry's text, the
  plug-in answers both parameter-list queries, its state with the parameters set
  serializes to at least one and fewer than \<open>2^31\<close> bytes, and the store accepts writes,
  the first load decodes the entry through the parameter-setting path, re-encodes and
  persists the state in the blob format under \<open>Data\<close>, and removes the legacy entry, so
  that after migration the legacy key is absent and a second load no longer finds a
  legacy key.
\<close>

theorem LoadPreset_migrates:
  assumes "entries host (grp, ''Parameters'') = Some parms"
    and "SetParameters lib parms = Some eap"
    and "parameterListInfo unit = noErr" and "parameterListGet unit = noErr"
    and "classData unit (unitParameters (snd (SetAutomationParameters unit eap))) = Some bytes"
    and "bytes \<noteq> []" and "length bytes < 2 ^ 31"
    and "accepting host"
  shows "\<exists>host'. LoadPreset lib host unit slaves grp =
             (True, host', snd (SetAutomationParameters unit eap), slaves) \<and>
           entries host' (grp, ''Parameters'') = None \<and>
           \<not> legacyFound host' grp \<and>
           entries host' (grp, PRESET_KEY) = Some (wxBase64Encode lib bytes (length bytes)) \<and>
           (\<forall>u s. LoadPreset lib host' u s grp = LoadPresetBlob lib host' u s grp)"
proof -
  define unit' where "unit' = snd (SetAutomationParameters unit eap)"
  have sa: "SetAutomationParameters unit eap = (True, unit')"
    using assms(3,4) by (simp add: unit'_def SetAutomationParameters_def)
  have cd: "classData unit' (unitParameters unit') = Some bytes"
    using assms(3,4,5) by (simp add: unit'_def SetAutomationParameters_def)
  define host1 where "host1 = host\<lparr>entries := (entries host)((grp, PRESET_KEY) \<mapsto>
                       wxBase64Encode lib bytes (length bytes))\<rparr>"
  have sp: "SavePreset lib host unit' grp = (True, host1)"
    unfolding host1_def by (rule SavePreset_data [OF cd assms(6,7,8)])
  have acc: "accepting host1"
    using assms(8) by (simp add: host1_def)
  define host' where "host' = host1\<lparr>entries := (entries host1)((grp, ''Parameters'') := None)\<rparr>"
  have rm: "snd (RemovePrivateConfig host1 grp ''Parameters'') = host'"
    using acc by (simp add: RemovePrivateConfig_def host'_def)
  have run: "LoadPreset lib host unit slaves grp = (True, host', unit', slaves)"
    by (simp add: LoadPreset_def GetPrivateConfig_def assms(1,2) sa sp rm)
  have gone: "entries host' (grp, ''Parameters'') = None"
    by (simp add: host'_def)
  have data: "entries host' (grp, PRESET_KEY) = Some (wxBase64Encode lib bytes (length bytes))"
    by (simp add: host'_def host1_def PRESET_KEY_def)
  have "\<not> legacyFound host' grp"
    by (simp add: legacyFound_def GetPrivateConfig_def gone)
  with run gone data LoadPreset_no_legacy [OF gone] show ?thesis
    unfolding unit'_def by blast
qed

theorem LoadPreset_migrates_witness:
  "entries legacyStore (''Delay'', ''Parameters'') = Some ''gain=5'' \<and>
   SetParameters exampleLib ''gain=5'' = Some [''gain'' \<mapsto> 5] \<and>
   parameterListInfo gainUnit = noErr \<and> parameterListGet gainUnit = noErr \<and>
   classData gainUnit (unitParameters (snd (SetAutomationParameters gainUnit [''gain'' \<mapsto> 5])))
     = Some [1, 2, 3] \<and>
   [1, 2, 3 :: byte] \<noteq> [] \<and> length [1, 2, 3 :: byte] < 2 ^ 31 \<and> accepting legacyStore \<and>
   (\<exists>host'. LoadPreset exampleLib legacyStore gainUnit [] ''Delay'' =
             (True, host', snd (SetAutomationParameters gainUnit [''gain'' \<mapsto> 5]), []) \<and>
           entries host' (''Delay'', ''Parameters'') = None \<and>
           \<not> legacyFound host' ''Delay'' \<and>
           entries host' (''Delay'', PRESET_KEY) = Some ''AQID'') \<and>
   parameterValue (unitParameters (snd (SetAutomationParameters gainUnit [''gain'' \<mapsto> 5]))) 7 = Some 5"
proof -
  have h1: "entries legacyStore (''Delay'', ''Parameters'') = Some ''gain=5''"
    by (simp add: legacyStore_def)
  have h2: "SetParameters exampleLib ''gain=5'' = Some [''gain'' \<mapsto> 5]"
    by (simp add: exampleLib_def)
  have h3: "parameterListInfo gainUnit = noErr" and h4: "parameterListGet gainUnit = noErr"
    by (simp_all add: gainUnit_def noErr_def)
  have h5: "classData gainUnit (unitParameters (snd (SetAutomationParameters gainUnit [''gain'' \<mapsto> 5])))
       = Some [1, 2, 3]"
    by (simp add: gainUnit_def)
  have h6: "[1, 2, 3 :: byte] \<noteq> []"
    by simp
  have h7: "length [1, 2, 3 :: byte] < 2 ^ 31"
    by simp
  have h8: "accepting legacyStore"
    by (simp add: legacyStore_def)
  have v: "parameterValue (unitParameters (snd (SetAutomationParameters gainUnit [''gain'' \<mapsto> 5]))) 7 = Some 5"
    by (simp add: SetAutomationParameters_def gainUnit_def noErr_def setNamedParameter_def
        AudioUnitSetParameter_def)
  have e: "wxBase64Encode exampleLib [1, 2, 3] (length [1, 2, 3 :: byte]) = ''AQID''"
    by (simp add: exampleLib_def)
  from LoadPreset_migrates [OF h1 h2 h3 h4 h5 h6 h7 h8, of "[]"] obtain host' where
    r: "LoadPreset exampleLib legacyStore gainUnit [] ''Delay'' =
             (True, host', snd (SetAutomationParameters gainUnit [''gain'' \<mapsto> 5]), [])" and
    g: "entries host' (''Delay'', ''Parameters'') = None" and
    l: "\<not> legacyFound host' ''Delay''" and
    d: "entries host' (''Delay'', PRESET_KEY) =
          Some (wxBase64Encode exampleLib [1, 2, 3] (length [1, 2, 3 :: byte]))"
    by blast
  have d': "entries host' (''Delay'', PRESET_KEY) = Some ''AQID''"
    unfolding d e by simp
  from r g l d' have "\<exists>host'. LoadPreset exampleLib legacyStore gainUnit [] ''Delay'' =
             (True, host', snd (SetAutomationParameters gainUnit [''gain'' \<mapsto> 5]), []) \<and>
           entries host' (''Delay'', ''Parameters'') = None \<and>
           \<not> legacyFound host' ''Delay'' \<and>
           entries host' (''Delay'', PRESET_KEY) = Some ''AQID''"
    by blast
  with h1 h2 h3 h4 h5 h6 h7 h8 v show ?thesis
    by (intro conjI)
qed

end
